theory Spec2Isabelle
  imports Main
begin

section \<open>Strings and the patterns of \<^verbatim>\<open>src/index.js\<close>\<close>

text \<open>
  JavaScript strings are modelled as \<^typ>\<open>string\<close>. Each regular expression of the source is
  translated by hand into the function that decides it; the source pattern is quoted above
  each definition.
\<close>

definition ends_with :: "string \<Rightarrow> string \<Rightarrow> bool" where
  "ends_with s suf = (length suf \<le> length s \<and> drop (length s - length suf) s = suf)"

definition starts_with :: "string \<Rightarrow> string \<Rightarrow> bool" where
  "starts_with s pre = (take (length pre) s = pre)"

fun contains :: "string \<Rightarrow> string \<Rightarrow> bool" where
  "contains [] sub = (sub = [])"
| "contains (c # cs) sub = (starts_with (c # cs) sub \<or> contains cs sub)"

definition is_lower :: "char \<Rightarrow> bool" where
  "is_lower c = ((97::nat) \<le> of_char c \<and> of_char c \<le> (122::nat))"

definition is_upper :: "char \<Rightarrow> bool" where
  "is_upper c = ((65::nat) \<le> of_char c \<and> of_char c \<le> (90::nat))"

definition is_digit :: "char \<Rightarrow> bool" where
  "is_digit c = ((48::nat) \<le> of_char c \<and> of_char c \<le> (57::nat))"

text \<open>\<^verbatim>\<open>/^[a-z_$][a-z0-9_$]*$/\<close> (line 152): no flag, so lower case only, and \<^verbatim>\<open>$\<close> is the end
  of the input.\<close>

definition ident_start :: "char \<Rightarrow> bool" where
  "ident_start c = (is_lower c \<or> c = CHR ''_'' \<or> c = CHR ''$'')"

definition ident_part :: "char \<Rightarrow> bool" where
  "ident_part c = (is_lower c \<or> is_digit c \<or> c = CHR ''_'' \<or> c = CHR ''$'')"

definition matches_global_name :: "string \<Rightarrow> bool" where
  "matches_global_name name =
     (case name of [] \<Rightarrow> False | c # cs \<Rightarrow> ident_start c \<and> list_all ident_part cs)"

text \<open>\<^verbatim>\<open>/\.[a-z]+$/\<close> (line 57).\<close>

definition has_extension :: "string \<Rightarrow> bool" where
  "has_extension s =
     (let t = takeWhile is_lower (rev s)
      in t \<noteq> [] \<and> starts_with (drop (length t) (rev s)) ''.'')"

text \<open>\<^verbatim>\<open>/src\//\<close> (line 169).\<close>

definition points_into_src :: "string \<Rightarrow> bool" where
  "points_into_src s = contains s ''src/''"

text \<open>\<^verbatim>\<open>/(\\|\/)index(\.(umd|cjs|es|m))?\.js$/\<close> (line 164).\<close>

definition format_suffixes :: "string list" where
  "format_suffixes = [''.umd.js'', ''.cjs.js'', ''.es.js'', ''.m.js'']"

definition is_index_entry :: "string \<Rightarrow> bool" where
  "is_index_entry e =
     list_ex (\<lambda>sep. list_ex (\<lambda>suf. ends_with e (sep @ ''index'' @ suf))
                (format_suffixes @ [''.js'']))
       [[CHR 0x5C], ''/'']"

text \<open>\<^verbatim>\<open>.replace(/(\.(umd|cjs|es|m))?\.js$/, '')\<close> (line 167): the leftmost match is removed,
  which is the longer suffix when the optional group matches.\<close>

definition strip_suffix :: "string \<Rightarrow> string \<Rightarrow> string" where
  "strip_suffix s suf = take (length s - length suf) s"

definition strip_js_extension :: "string \<Rightarrow> string" where
  "strip_js_extension s =
     (case filter (ends_with s) format_suffixes of
        suf # _ \<Rightarrow> strip_suffix s suf
      | [] \<Rightarrow> if ends_with s ''.js'' then strip_suffix s ''.js'' else s)"

text \<open>\<^verbatim>\<open>.replace(/^[^.]+/, '')\<close> (line 159).\<close>

definition strip_leading_name :: "string \<Rightarrow> string" where
  "strip_leading_name s = dropWhile (\<lambda>c. c \<noteq> CHR ''.'') s"

section \<open>Node's \<^verbatim>\<open>path\<close> functions (POSIX)\<close>

text \<open>
  \<^verbatim>\<open>path.basename\<close>, \<^verbatim>\<open>path.dirname\<close> and \<^verbatim>\<open>path.resolve\<close> are built into the runtime.
  They are modelled on character lists after Node's POSIX implementation; every argument
  modelled here is a string, the \<^verbatim>\<open>TypeError\<close> of a non-string argument is raised by the
  callers' models.
\<close>

definition is_slash :: "char \<Rightarrow> bool" where
  "is_slash c = (c = CHR ''/'')"

definition basename :: "string \<Rightarrow> string" where
  "basename p = rev (takeWhile (\<lambda>c. \<not> is_slash c) (dropWhile is_slash (rev p)))"

definition dirname :: "string \<Rightarrow> string" where
  "dirname p =
     (case p of
        [] \<Rightarrow> ''.''
      | c # cs \<Rightarrow>
          (let r = dropWhile (\<lambda>c. \<not> is_slash c) (dropWhile is_slash (rev cs))
           in case r of
                [] \<Rightarrow> if is_slash c then ''/'' else ''.''
              | _ # front \<Rightarrow>
                  if is_slash c \<and> front = [] then ''//'' else c # rev front))"

text \<open>\<^verbatim>\<open>s.split(sep)\<close> for a one-character separator.\<close>

fun split_on :: "char \<Rightarrow> string \<Rightarrow> string list" where
  "split_on sep [] = [[]]"
| "split_on sep (c # cs) =
     (if c = sep then [] # split_on sep cs
      else (case split_on sep cs of seg # segs \<Rightarrow> (c # seg) # segs | [] \<Rightarrow> [[c]]))"

definition push_segment :: "string list \<Rightarrow> string \<Rightarrow> string list" where
  "push_segment acc seg =
     (if seg = [] \<or> seg = ''.'' then acc
      else if seg = ''..'' then butlast acc
      else acc @ [seg])"

definition normalize_segments :: "string \<Rightarrow> string list" where
  "normalize_segments p = foldl push_segment [] (split_on CHR ''/'' p)"

definition join_absolute :: "string list \<Rightarrow> string" where
  "join_absolute segs = (if segs = [] then ''/'' else concat (map (\<lambda>s. CHR ''/'' # s) segs))"

text \<open>\<^verbatim>\<open>path.resolve(...args)\<close>: the last absolute argument and everything after it are joined
  (empty arguments are skipped; the process's working directory \<open>pcwd\<close>, an absolute path,
  is the base when no argument is absolute), then \<^verbatim>\<open>.\<close>, \<^verbatim>\<open>..\<close> and empty segments are
  resolved.\<close>

definition join_step :: "string \<Rightarrow> string \<Rightarrow> string" where
  "join_step acc p =
     (if p = [] then acc
      else if starts_with p ''/'' then p @ ''/''
      else acc @ p @ ''/'')"

definition path_resolve :: "string \<Rightarrow> string list \<Rightarrow> string" where
  "path_resolve pcwd args =
     join_absolute (normalize_segments (foldl join_step (pcwd @ ''/'') args))"

definition resolve :: "string \<Rightarrow> string \<Rightarrow> string \<Rightarrow> string" where
  "resolve pcwd a b = path_resolve pcwd [a, b]"

section \<open>The manifest, the options and the environment\<close>

text \<open>
  \<open>pkg\<close> is the parsed \<^verbatim>\<open>package.json\<close>: a field that is absent is \<open>None\<close>. The two
  dependency fields hold the keys of their objects. The fields
  \<^verbatim>\<open>amdName\<close> and \<^verbatim>\<open>mangle\<close> only reach the module name and the minifier and are left out.
\<close>

record pkg =
  pkg_name :: "string option"
  pkg_source :: "string option"
  pkg_main :: "string option"
  pkg_module :: "string option"
  pkg_jsnext_main :: "string option"
  pkg_cjs_main :: "string option"
  pkg_umd_main :: "string option"
  pkg_dependencies :: "string list option"
  pkg_peerDependencies :: "string list option"

definition empty_pkg :: pkg where
  "empty_pkg = \<lparr> pkg_name = None, pkg_source = None, pkg_main = None, pkg_module = None,
     pkg_jsnext_main = None, pkg_cjs_main = None, pkg_umd_main = None,
     pkg_dependencies = None, pkg_peerDependencies = None \<rparr>"

text \<open>JavaScript truthiness of an optional string: \<^verbatim>\<open>undefined\<close> and \<^verbatim>\<open>''\<close> are falsy.\<close>

definition truthy :: "string option \<Rightarrow> bool" where
  "truthy v = (case v of None \<Rightarrow> False | Some s \<Rightarrow> s \<noteq> [])"

text \<open>\<^verbatim>\<open>a || b\<close> on optional strings.\<close>

definition or_else :: "string option \<Rightarrow> string option \<Rightarrow> string option" where
  "or_else a b = (if truthy a then a else b)"

text \<open>
  \<open>options\<close> is the options object as \<^verbatim>\<open>createConfig\<close> reads it, after \<^verbatim>\<open>microbundle\<close> has
  stored the resolved \<^verbatim>\<open>cwd\<close>, \<^verbatim>\<open>pkg\<close>, \<^verbatim>\<open>output\<close>, \<^verbatim>\<open>entries\<close> and \<^verbatim>\<open>multipleEntries\<close> in it.
\<close>

record options =
  cwd :: string
  pkg :: pkg
  entries :: "string list"
  opt_output :: string
  multipleEntries :: bool
  inline :: "string option"
  external :: "string option"
  strict :: bool

text \<open>
  What the program reads from outside: the working directory of the process, the directory
  of the running module (\<^verbatim>\<open>__dirname\<close>), the file system, and the runtime's
  \<^verbatim>\<open>Array.prototype.sort\<close>. \<open>readFileSync\<close> is \<open>None\<close> where \<^verbatim>\<open>fs.readFileSync\<close> throws.
\<close>

record env =
  process_cwd :: string
  module_dirname :: string
  readFileSync :: "string \<Rightarrow> string option"
  isDir :: "string \<Rightarrow> bool"
  isFile :: "string \<Rightarrow> bool"
  glob_sync :: "string \<Rightarrow> string list"
  array_sort :: "(string \<Rightarrow> string \<Rightarrow> int) \<Rightarrow> string list \<Rightarrow> string list"

datatype error = TypeError

section \<open>Export-shape detection (lines 178 to 187)\<close>

text \<open>
  The source text of an entry is a list of code units below 256. \<^verbatim>\<open>\s\<close> is the white space
  among them, \<^verbatim>\<open>\w\<close> is \<^verbatim>\<open>[A-Za-z0-9_]\<close>, and \<^verbatim>\<open>^\<close> under the \<^verbatim>\<open>m\<close> flag is the start of the
  input or the position after a line terminator.
\<close>

definition is_space :: "char \<Rightarrow> bool" where
  "is_space c = (((9::nat) \<le> of_char c \<and> of_char c \<le> (13::nat))
                 \<or> of_char c = (32::nat) \<or> of_char c = (160::nat))"

definition is_word :: "char \<Rightarrow> bool" where
  "is_word c = (is_lower c \<or> is_upper c \<or> is_digit c \<or> c = CHR ''_'')"

definition is_line_terminator :: "char \<Rightarrow> bool" where
  "is_line_terminator c = (of_char c = (10::nat) \<or> of_char c = (13::nat))"

definition skip_space :: "string \<Rightarrow> string" where
  "skip_space s = dropWhile is_space s"

text \<open>\<open>search_at P after ok s\<close>: some position of \<open>s\<close>, the start (when \<open>ok\<close>) or one that
  follows a character satisfying \<open>after\<close>, has \<open>P\<close> of the rest of the text.\<close>

fun search_at :: "(string \<Rightarrow> bool) \<Rightarrow> (char \<Rightarrow> bool) \<Rightarrow> bool \<Rightarrow> string \<Rightarrow> bool" where
  "search_at P after ok [] = (ok \<and> P [])"
| "search_at P after ok (c # cs) = ((ok \<and> P (c # cs)) \<or> search_at P after (after c) cs)"

definition next_char_in :: "(char \<Rightarrow> bool) \<Rightarrow> string \<Rightarrow> bool" where
  "next_char_in cls s = (case skip_space s of [] \<Rightarrow> False | c # _ \<Rightarrow> cls c)"

text \<open>\<^verbatim>\<open>export\s*default\s*[a-zA-Z_$]\<close> at the head of the text.\<close>

definition export_default_here :: "string \<Rightarrow> bool" where
  "export_default_here s =
     (starts_with s ''export'' \<and>
      (let r = skip_space (drop 6 s)
       in starts_with r ''default'' \<and>
          next_char_in (\<lambda>c. is_lower c \<or> is_upper c \<or> c = CHR ''_'' \<or> c = CHR ''$'')
            (drop 7 r)))"

text \<open>\<^verbatim>\<open>export\s*(let|const|var|async|function\*?)\s*[a-zA-Z_$*]\<close> at the head of the text.\<close>

definition export_keywords :: "string list" where
  "export_keywords = [''let'', ''const'', ''var'', ''async'', ''function*'', ''function'']"

definition export_declaration_here :: "string \<Rightarrow> bool" where
  "export_declaration_here s =
     (starts_with s ''export'' \<and>
      (let r = skip_space (drop 6 s)
       in list_ex (\<lambda>kw. starts_with r kw \<and>
            next_char_in (\<lambda>c. is_lower c \<or> is_upper c \<or> c = CHR ''_'' \<or> c = CHR ''$''
                               \<or> c = CHR ''*'')
              (drop (length kw) r))
          export_keywords))"

text \<open>\<^verbatim>\<open>\s*export\s*\{\<close> at the head of the text.\<close>

definition export_list_here :: "string \<Rightarrow> bool" where
  "export_list_here s =
     (let r = skip_space s
      in starts_with r ''export'' \<and> starts_with (skip_space (drop 6 r)) ''{'')"

text \<open>\<^verbatim>\<open>/\bexport\s*default\s*[a-zA-Z_$]/.test(file)\<close>\<close>

definition hasDefault :: "string \<Rightarrow> bool" where
  "hasDefault file = search_at export_default_here (\<lambda>c. \<not> is_word c) True file"

text \<open>\<^verbatim>\<open>/\bexport\s*(let|const|var|async|function\*?)\s*[a-zA-Z_$*]/.test(file)
  || /^\s*export\s*\{/m.test(file)\<close>\<close>

definition hasNamed :: "string \<Rightarrow> bool" where
  "hasNamed file =
     (search_at export_declaration_here (\<lambda>c. \<not> is_word c) True file
      \<or> search_at export_list_here is_line_terminator True file)"

text \<open>
  The same three patterns read as shapes of the text: what stands before the match, the
  white space, the keyword and the character that follows. A default export of this shape is
  one of a named value (\<^verbatim>\<open>export default foo\<close>, \<^verbatim>\<open>export default class\<close>); a named export
  of these shapes is a declaration with one of five keywords, or an export list that starts
  a line.
\<close>

definition white :: "string \<Rightarrow> bool" where
  "white ws = list_all is_space ws"

definition at_word_boundary :: "string \<Rightarrow> bool" where
  "at_word_boundary before = (before = [] \<or> \<not> is_word (last before))"

definition at_line_start :: "string \<Rightarrow> bool" where
  "at_line_start before = (before = [] \<or> is_line_terminator (last before))"

definition default_export_of_name :: "string \<Rightarrow> bool" where
  "default_export_of_name file =
     (\<exists>before ws1 ws2 c rest.
        file = before @ ''export'' @ ws1 @ ''default'' @ ws2 @ c # rest
        \<and> at_word_boundary before \<and> white ws1 \<and> white ws2
        \<and> (is_lower c \<or> is_upper c \<or> c = CHR ''_'' \<or> c = CHR ''$''))"

definition export_of_declaration :: "string \<Rightarrow> bool" where
  "export_of_declaration file =
     (\<exists>before ws1 kw ws2 c rest.
        file = before @ ''export'' @ ws1 @ kw @ ws2 @ c # rest
        \<and> at_word_boundary before \<and> white ws1 \<and> white ws2
        \<and> kw \<in> set [''let'', ''const'', ''var'', ''async'', ''function'']
        \<and> (is_lower c \<or> is_upper c \<or> c = CHR ''_'' \<or> c = CHR ''$'' \<or> c = CHR ''*''))"

definition export_of_list :: "string \<Rightarrow> bool" where
  "export_of_list file =
     (\<exists>before ws0 ws1 rest.
        file = before @ ws0 @ ''export'' @ ws1 @ ''{'' @ rest
        \<and> at_line_start before \<and> white ws0 \<and> white ws1)"

text \<open>Lines 178 to 187: \<open>Some ''default''\<close> or \<^verbatim>\<open>undefined\<close>. A failing read is caught and
  leaves \<^verbatim>\<open>exportType\<close> undefined.\<close>

definition exportType :: "env \<Rightarrow> string \<Rightarrow> string \<Rightarrow> string option" where
  "exportType e entry format =
     (if format \<noteq> ''es'' then
        (case readFileSync e entry of
           None \<Rightarrow> None
         | Some file \<Rightarrow> if hasDefault file \<and> hasNamed file then Some ''default'' else None)
      else None)"

section \<open>\<^verbatim>\<open>createConfig\<close> (lines 126 to 301)\<close>

text \<open>
  The configuration of one (entry, format) pair. The fields are those of \<^verbatim>\<open>inputOptions\<close> and
  \<^verbatim>\<open>outputOptions\<close> that the program computes; of the plugin list the model keeps what varies:
  whether the stylesheet is extracted (\<^verbatim>\<open>writeMeta\<close>) and whether the two dependency-resolution
  plugins are present (\<^verbatim>\<open>useNodeResolve\<close>). The constant output fields and the module name
  (computed by the \<^verbatim>\<open>camelcase\<close> package) are left out.
\<close>

record build_config =
  input :: string
  externals :: "string list"
  extract_css :: bool
  useNodeResolve :: bool
  exports :: "string option"
  paths :: "(string \<times> string) list"
  globals :: "string \<rightharpoonup> string"
  strict_mode :: bool
  out_format :: string
  out_file :: string

text \<open>Lines 129 to 132.\<close>

definition builtin_externals :: "string list" where
  "builtin_externals = [''dns'', ''fs'', ''path'', ''url'']"

definition object_keys :: "string list option \<Rightarrow> string list" where
  "object_keys deps = (case deps of None \<Rightarrow> [] | Some ks \<Rightarrow> ks)"

definition base_external :: "options \<Rightarrow> string \<Rightarrow> string list" where
  "base_external opts entry =
     builtin_externals @ object_keys (pkg_peerDependencies (pkg opts))
       @ filter (\<lambda>e. e \<noteq> entry) (entries opts)"

text \<open>Lines 134 to 139.\<close>

definition aliases :: "options \<Rightarrow> (string \<times> string) list" where
  "aliases opts =
     (if multipleEntries opts then [(''.'', ''./'' @ basename (opt_output opts))] else [])"

definition external_with_alias :: "options \<Rightarrow> string \<Rightarrow> string list" where
  "external_with_alias opts entry =
     (if multipleEntries opts then base_external opts entry @ [''.'']
      else base_external opts entry)"

text \<open>Lines 141 to 148: \<^verbatim>\<open>Object.keys(pkg.dependencies)\<close> throws a \<^verbatim>\<open>TypeError\<close> when the
  manifest has no \<^verbatim>\<open>dependencies\<close>. The result is \<^verbatim>\<open>useNodeResolve\<close> and \<^verbatim>\<open>external\<close>.\<close>

definition dependency_mode :: "options \<Rightarrow> string \<Rightarrow> error + (bool \<times> string list)" where
  "dependency_mode opts entry =
     (let ext = external_with_alias opts entry
      in if inline opts = Some ''all'' then Inr (True, ext)
         else if external opts = Some ''all'' \<or> inline opts = Some ''none'' then
           (case pkg_dependencies (pkg opts) of
              None \<Rightarrow> Inl TypeError
            | Some deps \<Rightarrow> Inr (False, ext @ deps))
         else Inr (True, ext))"

text \<open>Lines 150 to 156: the \<^verbatim>\<open>reduce\<close> over \<^verbatim>\<open>external\<close>, which starts from the object literal
  \<^verbatim>\<open>{}\<close>. On such an object \<^verbatim>\<open>globals[name] = name\<close> creates the property \<open>name\<close>, except for the
  name \<^verbatim>\<open>__proto__\<close>: that assignment goes to the setter of the prototype, which ignores a
  string, and the object keeps its properties.\<close>

definition assign_string :: "(string \<rightharpoonup> string) \<Rightarrow> string \<Rightarrow> string \<Rightarrow> (string \<rightharpoonup> string)" where
  "assign_string obj key v = (if key = ''__proto__'' then obj else obj(key \<mapsto> v))"

definition add_global :: "(string \<rightharpoonup> string) \<Rightarrow> string \<Rightarrow> (string \<rightharpoonup> string)" where
  "add_global g name = (if matches_global_name name then assign_string g name name else g)"

definition make_globals :: "string list \<Rightarrow> (string \<rightharpoonup> string)" where
  "make_globals ext = foldl add_global Map.empty ext"

text \<open>Lines 158 to 160.\<close>

definition replaceName :: "env \<Rightarrow> string \<Rightarrow> string \<Rightarrow> string" where
  "replaceName e filename name =
     resolve (process_cwd e) (dirname filename) (name @ strip_leading_name (basename filename))"

text \<open>Lines 162 to 167.\<close>

definition mainNoExtension :: "env \<Rightarrow> options \<Rightarrow> string \<Rightarrow> string" where
  "mainNoExtension e opts entry =
     strip_js_extension
       (if multipleEntries opts then
          (let name = (if is_index_entry entry then opt_output opts else entry)
           in resolve (process_cwd e) (dirname (opt_output opts)) (basename name))
        else opt_output opts)"

text \<open>Lines 169 to 171.\<close>

definition string_or :: "string option \<Rightarrow> string \<Rightarrow> string" where
  "string_or v d = (case v of Some s \<Rightarrow> if s \<noteq> [] then s else d | None \<Rightarrow> d)"

definition module_template :: "pkg \<Rightarrow> string" where
  "module_template p =
     (case pkg_module p of
        Some m \<Rightarrow> if m \<noteq> [] \<and> \<not> points_into_src m then m
                  else string_or (pkg_jsnext_main p) ''x.m.js''
      | None \<Rightarrow> string_or (pkg_jsnext_main p) ''x.m.js'')"

definition moduleMain :: "env \<Rightarrow> options \<Rightarrow> string \<Rightarrow> string" where
  "moduleMain e opts entry =
     replaceName e (module_template (pkg opts)) (mainNoExtension e opts entry)"

definition cjsMain :: "env \<Rightarrow> options \<Rightarrow> string \<Rightarrow> string" where
  "cjsMain e opts entry =
     replaceName e (string_or (pkg_cjs_main (pkg opts)) ''x.js'') (mainNoExtension e opts entry)"

definition umdMain :: "env \<Rightarrow> options \<Rightarrow> string \<Rightarrow> string" where
  "umdMain e opts entry =
     replaceName e (string_or (pkg_umd_main (pkg opts)) ''x.umd.js'')
       (mainNoExtension e opts entry)"

text \<open>Line 296. The three names are results of \<^verbatim>\<open>resolve\<close>, hence non-empty and truthy.\<close>

definition output_file :: "env \<Rightarrow> options \<Rightarrow> string \<Rightarrow> string \<Rightarrow> string" where
  "output_file e opts entry format =
     resolve (process_cwd e) (cwd opts)
       (if format = ''es'' then moduleMain e opts entry
        else if format = ''umd'' then umdMain e opts entry
        else cjsMain e opts entry)"

text \<open>The file-name template that line 296 selects for a format, and the part of it that
  \<^verbatim>\<open>replaceName\<close> keeps: the base name from its first dot on.\<close>

definition name_template :: "pkg \<Rightarrow> string \<Rightarrow> string" where
  "name_template p format =
     (if format = ''es'' then module_template p
      else if format = ''umd'' then string_or (pkg_umd_main p) ''x.umd.js''
      else string_or (pkg_cjs_main p) ''x.js'')"

definition template_suffix :: "pkg \<Rightarrow> string \<Rightarrow> string" where
  "template_suffix p format = strip_leading_name (basename (name_template p format))"

text \<open>Line 191.\<close>

definition wrapper_entry :: "env \<Rightarrow> string" where
  "wrapper_entry e = resolve (process_cwd e) (module_dirname e) ''../src/lib/__entry__.js''"

definition createConfig ::
  "env \<Rightarrow> options \<Rightarrow> string \<Rightarrow> string \<Rightarrow> bool \<Rightarrow> error + build_config" where
  "createConfig e opts entry format writeMeta =
     (case dependency_mode opts entry of
        Inl err \<Rightarrow> Inl err
      | Inr (nodeResolve, ext) \<Rightarrow>
          (let et = exportType e entry format
           in Inr \<lparr> input = (if et \<noteq> None then wrapper_entry e else entry),
                    externals = ext,
                    extract_css = writeMeta,
                    useNodeResolve = nodeResolve,
                    exports = (if et \<noteq> None then Some ''default'' else None),
                    paths = aliases opts,
                    globals = make_globals ext,
                    strict_mode = strict opts,
                    out_format = format,
                    out_file = output_file e opts entry format \<rparr>))"

section \<open>\<^verbatim>\<open>microbundle\<close> (lines 33 to 123)\<close>

text \<open>
  The options as the caller passes them. \<open>run_entries = None\<close> is an absent \<^verbatim>\<open>entries\<close>.
\<close>

record run_options =
  run_cwd :: string
  run_entries :: "string list option"
  run_output :: "string option"
  run_format :: "string option"
  run_formats :: "string option"
  run_watch :: bool
  run_inline :: "string option"
  run_external :: "string option"
  run_strict :: bool

text \<open>
  Lines 36 to 44. The outcome of \<^verbatim>\<open>JSON.parse(await readFile(resolve(cwd, 'package.json')))\<close> is
  an input of the model: the file is missing (the error message contains \<^verbatim>\<open>ENOENT\<close>), reading
  or parsing fails with another message, or a manifest object is read.
\<close>

datatype manifest_read = NoManifest | ManifestFailure string | Manifest pkg

datatype warning = NoPackageJson | ErrorDetail string | MissingName string

definition load_manifest :: "manifest_read \<Rightarrow> pkg \<times> warning list" where
  "load_manifest m =
     (case m of
        Manifest p \<Rightarrow> (p, [])
      | NoManifest \<Rightarrow> (empty_pkg, [NoPackageJson])
      | ManifestFailure msg \<Rightarrow>
          (empty_pkg, if contains msg ''ENOENT'' then [NoPackageJson]
                      else [NoPackageJson, ErrorDetail msg]))"

text \<open>Lines 46 to 49.\<close>

definition default_name :: "string \<Rightarrow> pkg \<Rightarrow> pkg \<times> warning list" where
  "default_name dir p =
     (if \<not> truthy (pkg_name p)
      then (p\<lparr>pkg_name := Some (basename dir)\<rparr>, [MissingName (basename dir)])
      else (p, []))"

text \<open>
  Lines 52 and 53: the argument of \<^verbatim>\<open>[].concat\<close>, as the list it concatenates to. An element
  \<open>None\<close> is a value that is not a string (\<^verbatim>\<open>undefined\<close> from an absent manifest field).
\<close>

definition entry_candidates :: "env \<Rightarrow> string \<Rightarrow> run_options \<Rightarrow> pkg \<Rightarrow> string option list" where
  "entry_candidates e dir ro p =
     (case run_entries ro of
        Some (x # xs) \<Rightarrow> map Some (x # xs)
      | _ \<Rightarrow>
          if truthy (pkg_source p) then [pkg_source p]
          else if isDir e (resolve (process_cwd e) dir ''src'') then [Some ''src/index.js'']
          else if isFile e (resolve (process_cwd e) dir ''index.js'') then [Some ''index.js'']
          else [pkg_module p])"

text \<open>Line 54: \<^verbatim>\<open>resolve\<close> throws a \<^verbatim>\<open>TypeError\<close> on an argument that is not a string.\<close>

fun expand_candidates :: "env \<Rightarrow> string \<Rightarrow> string option list \<Rightarrow> error + string list" where
  "expand_candidates e dir [] = Inr []"
| "expand_candidates e dir (None # cs) = Inl TypeError"
| "expand_candidates e dir (Some f # cs) =
     (case expand_candidates e dir cs of
        Inl err \<Rightarrow> Inl err
      | Inr rest \<Rightarrow> Inr (glob_sync e (resolve (process_cwd e) dir f) @ rest))"

text \<open>Lines 56 to 60. A template literal prints an absent value as \<^verbatim>\<open>undefined\<close>.\<close>

definition template :: "string option \<Rightarrow> string" where
  "template v = (case v of Some s \<Rightarrow> s | None \<Rightarrow> ''undefined'')"


definition main_output :: "env \<Rightarrow> string \<Rightarrow> run_options \<Rightarrow> pkg \<Rightarrow> string" where
  "main_output e dir ro p =
     (let main = resolve (process_cwd e) dir
                   (string_or (run_output ro) (string_or (pkg_main p) ''dist''))
      in if \<not> has_extension main \<or> isDir e main
         then resolve (process_cwd e) main (template (pkg_name p) @ ''.js'')
         else main)"

text \<open>Lines 62 to 68. \<^verbatim>\<open>arr.indexOf(item)\<close> is the first index of \<open>item\<close>, or \<open>-1\<close>.\<close>

definition entry_file :: "env \<Rightarrow> string \<Rightarrow> string \<Rightarrow> string" where
  "entry_file e dir f =
     (let f' = resolve (process_cwd e) dir f
      in if isDir e f' then resolve (process_cwd e) f' ''index.js'' else f')"

fun indexOf :: "'a list \<Rightarrow> 'a \<Rightarrow> int" where
  "indexOf [] x = -1"
| "indexOf (y # ys) x =
     (if y = x then 0 else (let i = indexOf ys x in if i < 0 then -1 else i + 1))"

definition first_occurrences :: "'a list \<Rightarrow> 'a list" where
  "first_occurrences arr =
     map fst (filter (\<lambda>(item, i). indexOf arr item = int i) (zip arr [0..<length arr]))"

definition resolve_entries :: "env \<Rightarrow> string \<Rightarrow> string list \<Rightarrow> string list" where
  "resolve_entries e dir inp = first_occurrences (map (entry_file e dir) inp)"

text \<open>
  Lines 74 to 76. \<^verbatim>\<open>a > b\<close> on strings compares code units lexicographically. The comparator
  is \<^verbatim>\<open>(a, b) => a==='cjs' ? -1 : a>b ? 1 : 0\<close>.
\<close>

fun string_gt :: "string \<Rightarrow> string \<Rightarrow> bool" where
  "string_gt [] b = False"
| "string_gt (x # xs) [] = True"
| "string_gt (x # xs) (y # ys) =
     ((of_char y :: nat) < of_char x \<or> (x = y \<and> string_gt xs ys))"

definition compare_formats :: "string \<Rightarrow> string \<Rightarrow> int" where
  "compare_formats a b = (if a = ''cjs'' then -1 else if string_gt a b then 1 else 0)"

text \<open>\<^verbatim>\<open>(options.format || options.formats).split(',')\<close> throws a \<^verbatim>\<open>TypeError\<close> when both are
  absent.\<close>

definition scheduled_formats :: "env \<Rightarrow> run_options \<Rightarrow> error + string list" where
  "scheduled_formats e ro =
     (case or_else (run_format ro) (run_formats ro) of
        None \<Rightarrow> Inl TypeError
      | Some s \<Rightarrow> Inr (array_sort e compare_formats (split_on CHR '','' s)))"

text \<open>Lines 78 to 83: one call of \<^verbatim>\<open>createConfig\<close> per pair, entries outermost; the first
  exception ends the loop.\<close>

definition step_pairs :: "string list \<Rightarrow> string list \<Rightarrow> (string \<times> string \<times> bool) list" where
  "step_pairs ents formats =
     concat (map (\<lambda>(i, entry). map (\<lambda>(j, format). (entry, format, i = 0 \<and> j = 0))
                                   (enumerate (0::nat) formats))
                 (enumerate (0::nat) ents))"

fun collect :: "(error + 'a) list \<Rightarrow> error + 'a list" where
  "collect [] = Inr []"
| "collect (Inl err # rs) = Inl err"
| "collect (Inr x # rs) = (case collect rs of Inl err \<Rightarrow> Inl err | Inr xs \<Rightarrow> Inr (x # xs))"

definition make_steps :: "env \<Rightarrow> options \<Rightarrow> string list \<Rightarrow> error + build_config list" where
  "make_steps e opts formats =
     collect (map (\<lambda>(entry, format, writeMeta). createConfig e opts entry format writeMeta)
                  (step_pairs (entries opts) formats))"

text \<open>Lines 33 to 83: the warnings printed, and the steps or the exception thrown.\<close>

definition resolved_options :: "env \<Rightarrow> run_options \<Rightarrow> pkg \<Rightarrow> string list \<Rightarrow> options" where
  "resolved_options e ro p inp =
     (let dir = resolve (process_cwd e) (process_cwd e) (run_cwd ro);
          ents = resolve_entries e dir inp
      in \<lparr> cwd = dir, pkg = p, entries = ents, opt_output = main_output e dir ro p,
           multipleEntries = (1 < length ents), inline = run_inline ro,
           external = run_external ro, strict = run_strict ro \<rparr>)"

definition microbundle_steps ::
  "env \<Rightarrow> manifest_read \<Rightarrow> run_options \<Rightarrow> warning list \<times> (error + build_config list)" where
  "microbundle_steps e m ro =
     (let dir = resolve (process_cwd e) (process_cwd e) (run_cwd ro);
          (p0, w1) = load_manifest m;
          (p, w2) = default_name dir p0
      in (w1 @ w2,
          case expand_candidates e dir (entry_candidates e dir ro p) of
            Inl err \<Rightarrow> Inl err
          | Inr inp \<Rightarrow>
              (case scheduled_formats e ro of
                 Inl err \<Rightarrow> Inl err
               | Inr formats \<Rightarrow> make_steps e (resolved_options e ro p inp) formats)))"

text \<open>
  Lines 92 to 122: what a run does, in order. The warnings come first; then either the
  exception ends the run, or every step is handed to the bundling engine (\<^verbatim>\<open>watch\<close> in watch
  mode, \<^verbatim>\<open>rollup\<close> otherwise). What the engine does with a step is outside the model.
\<close>

datatype event = Warned warning | Bundled build_config | Watched build_config | Thrown error

definition microbundle :: "env \<Rightarrow> manifest_read \<Rightarrow> run_options \<Rightarrow> event list" where
  "microbundle e m ro =
     (case microbundle_steps e m ro of
        (ws, Inl err) \<Rightarrow> map Warned ws @ [Thrown err]
      | (ws, Inr steps) \<Rightarrow>
          map Warned ws @ map (if run_watch ro then Watched else Bundled) steps)"

section \<open>Two implementations of \<^verbatim>\<open>Array.prototype.sort\<close>\<close>

text \<open>
  The order that \<^verbatim>\<open>sort\<close> produces is fixed by the language only for a consistent comparator.
  These are the two algorithms of V8, the engine of Node: the insertion sort it applied to
  arrays of at most ten elements up to version 6.9, and the run detection followed by binary
  insertion that it applies, since version 7.0, to arrays of fewer than 64 elements.
\<close>

fun insert_shifting :: "('a \<Rightarrow> 'a \<Rightarrow> int) \<Rightarrow> 'a \<Rightarrow> 'a list \<Rightarrow> 'a list" where
  "insert_shifting cmp element [] = [element]"
| "insert_shifting cmp element (tmp # below) =
     (if 0 < cmp tmp element then tmp # insert_shifting cmp element below
      else element # tmp # below)"

text \<open>The sorted prefix is kept reversed, its last element first, as the inner loop scans it.\<close>

definition insertion_sort :: "('a \<Rightarrow> 'a \<Rightarrow> int) \<Rightarrow> 'a list \<Rightarrow> 'a list" where
  "insertion_sort cmp a = rev (foldl (\<lambda>prefix element. insert_shifting cmp element prefix) [] a)"

fun extend_run :: "('a \<Rightarrow> 'a \<Rightarrow> int) \<Rightarrow> bool \<Rightarrow> 'a \<Rightarrow> 'a list \<Rightarrow> 'a list \<times> 'a list" where
  "extend_run cmp descending previous [] = ([], [])"
| "extend_run cmp descending previous (current # rest) =
     (if (if descending then cmp current previous < 0 else 0 \<le> cmp current previous)
      then (case extend_run cmp descending current rest of (run, others) \<Rightarrow> (current # run, others))
      else ([], current # rest))"

definition count_and_make_run :: "('a \<Rightarrow> 'a \<Rightarrow> int) \<Rightarrow> 'a list \<Rightarrow> 'a list \<times> 'a list" where
  "count_and_make_run cmp a =
     (case a of
        high # low # rest \<Rightarrow>
          (let descending = (cmp low high < 0)
           in case extend_run cmp descending low rest of
                (run, others) \<Rightarrow>
                  (if descending then rev (high # low # run) else high # low # run, others))
      | _ \<Rightarrow> (a, []))"

function binary_search :: "('a \<Rightarrow> 'a \<Rightarrow> int) \<Rightarrow> 'a \<Rightarrow> 'a list \<Rightarrow> nat \<Rightarrow> nat \<Rightarrow> nat" where
  "binary_search cmp pivot work left right =
     (if left < right then
        (let mid = left + (right - left) div 2
         in if cmp pivot (work ! mid) < 0 then binary_search cmp pivot work left mid
            else binary_search cmp pivot work (mid + 1) right)
      else left)"
  by pat_completeness auto
termination
  by (relation "measure (\<lambda>(cmp, pivot, work, left, right). right - left)") auto

definition binary_insert :: "('a \<Rightarrow> 'a \<Rightarrow> int) \<Rightarrow> 'a list \<Rightarrow> 'a \<Rightarrow> 'a list" where
  "binary_insert cmp work pivot =
     (let left = binary_search cmp pivot work 0 (length work)
      in take left work @ pivot # drop left work)"

definition binary_insertion_sort :: "('a \<Rightarrow> 'a \<Rightarrow> int) \<Rightarrow> 'a list \<Rightarrow> 'a list" where
  "binary_insertion_sort cmp a =
     (case count_and_make_run cmp a of (run, others) \<Rightarrow> foldl (binary_insert cmp) run others)"

section \<open>Option values and \<^verbatim>\<open>lodash.merge\<close>\<close>

text \<open>
  The options of a plugin or preset are JavaScript values built from \<^verbatim>\<open>undefined\<close>, \<^verbatim>\<open>null\<close>,
  booleans, numbers, strings, arrays and plain objects. An object is the list of its own
  properties, each key once; the order of the properties carries no meaning and the
  properties are read through \<open>get_key\<close>.
\<close>

datatype json =
    JUndefined
  | JNull
  | JBool bool
  | JNumber int
  | JString string
  | JArray "json list"
  | JObject "(string \<times> json) list"

definition js_truthy :: "json \<Rightarrow> bool" where
  "js_truthy v =
     (case v of
        JUndefined \<Rightarrow> False
      | JNull \<Rightarrow> False
      | JBool b \<Rightarrow> b
      | JNumber n \<Rightarrow> n \<noteq> 0
      | JString s \<Rightarrow> s \<noteq> []
      | _ \<Rightarrow> True)"

text \<open>\<^verbatim>\<open>a || b\<close>\<close>

definition js_or :: "json \<Rightarrow> json \<Rightarrow> json" where
  "js_or a b = (if js_truthy a then a else b)"

text \<open>lodash's \<^verbatim>\<open>isObject\<close> on these values.\<close>

definition is_container :: "json \<Rightarrow> bool" where
  "is_container v = (case v of JArray _ \<Rightarrow> True | JObject _ \<Rightarrow> True | _ \<Rightarrow> False)"

definition is_array :: "json \<Rightarrow> bool" where
  "is_array v = (case v of JArray _ \<Rightarrow> True | _ \<Rightarrow> False)"

text \<open>
  Property keys are strings; the elements of an array are the properties whose keys are the
  canonical decimal numerals \<^verbatim>\<open>0\<close>, \<^verbatim>\<open>1\<close>, ...
\<close>

definition digit_char :: "nat \<Rightarrow> char" where
  "digit_char d = char_of (48 + d)"

function index_key :: "nat \<Rightarrow> string" where
  "index_key n = (if n < 10 then [digit_char n] else index_key (n div 10) @ [digit_char (n mod 10)])"
  by pat_completeness auto
termination
  by (relation "measure id") auto

definition digit_value :: "char \<Rightarrow> nat" where
  "digit_value c = of_char c - 48"

definition key_index :: "string \<Rightarrow> nat option" where
  "key_index k =
     (if k \<noteq> [] \<and> list_all is_digit k \<and> (hd k \<noteq> CHR ''0'' \<or> k = ''0'')
      then Some (foldl (\<lambda>n c. 10 * n + digit_value c) 0 k)
      else None)"

text \<open>\<^verbatim>\<open>object[key]\<close>, \<^verbatim>\<open>key in object\<close> and \<^verbatim>\<open>object[key] = value\<close> on an object or an array. An
  array written beyond its end is padded with \<^verbatim>\<open>undefined\<close>. A key that is not an index
  names no element of an array: such a property of an array object is outside the model.\<close>

fun get_property :: "(string \<times> json) list \<Rightarrow> string \<Rightarrow> json" where
  "get_property [] k = JUndefined"
| "get_property ((k', v) # ps) k = (if k' = k then v else get_property ps k)"

fun set_property :: "(string \<times> json) list \<Rightarrow> string \<Rightarrow> json \<Rightarrow> (string \<times> json) list" where
  "set_property [] k v = [(k, v)]"
| "set_property ((k', v') # ps) k v =
     (if k' = k then (k, v) # ps else (k', v') # set_property ps k v)"

definition get_key :: "json \<Rightarrow> string \<Rightarrow> json" where
  "get_key object k =
     (case object of
        JObject ps \<Rightarrow> get_property ps k
      | JArray xs \<Rightarrow>
          (case key_index k of
             Some i \<Rightarrow> if i < length xs then xs ! i else JUndefined
           | None \<Rightarrow> JUndefined)
      | _ \<Rightarrow> JUndefined)"

definition has_key :: "json \<Rightarrow> string \<Rightarrow> bool" where
  "has_key object k =
     (case object of
        JObject ps \<Rightarrow> k \<in> set (map fst ps)
      | JArray xs \<Rightarrow> (case key_index k of Some i \<Rightarrow> i < length xs | None \<Rightarrow> False)
      | _ \<Rightarrow> False)"

definition set_key :: "json \<Rightarrow> string \<Rightarrow> json \<Rightarrow> json" where
  "set_key object k v =
     (case object of
        JObject ps \<Rightarrow> JObject (set_property ps k v)
      | JArray xs \<Rightarrow>
          (case key_index k of
             Some i \<Rightarrow>
               JArray (if i < length xs then xs[i := v]
                       else xs @ replicate (i - length xs) JUndefined @ [v])
           | None \<Rightarrow> JArray xs)
      | _ \<Rightarrow> object)"

text \<open>
  \<^verbatim>\<open>lodash.merge\<close>, after its documentation and implementation (\<^verbatim>\<open>baseMerge\<close>,
  \<^verbatim>\<open>baseMergeDeep\<close>, \<^verbatim>\<open>assignMergeValue\<close>): the properties of the source are merged into the
  destination one by one; an array or object property is merged recursively into the
  destination's property (into a fresh array or object when the destination's is of another
  kind); any other value is assigned, but \<^verbatim>\<open>undefined\<close> is skipped when the destination has
  the key.
\<close>

definition assignMergeValue :: "json \<Rightarrow> string \<Rightarrow> json \<Rightarrow> json" where
  "assignMergeValue object k v =
     (if v \<noteq> JUndefined \<or> \<not> has_key object k then set_key object k v else object)"

fun baseMergeDeep :: "json \<Rightarrow> json \<Rightarrow> json"
  and merge_entries :: "json \<Rightarrow> (string \<times> json) list \<Rightarrow> json"
  and merge_elements :: "json \<Rightarrow> nat \<Rightarrow> json list \<Rightarrow> json" where
  "baseMergeDeep objValue (JArray ys) =
     merge_elements (if is_array objValue then objValue else JArray []) 0 ys"
| "baseMergeDeep objValue (JObject qs) =
     merge_entries (if is_container objValue then objValue else JObject []) qs"
| "baseMergeDeep objValue JUndefined = objValue"
| "baseMergeDeep objValue JNull = objValue"
| "baseMergeDeep objValue (JBool b) = objValue"
| "baseMergeDeep objValue (JNumber n) = objValue"
| "baseMergeDeep objValue (JString s) = objValue"
| "merge_entries object [] = object"
| "merge_entries object ((k, srcValue) # qs) =
     merge_entries
       (if is_container srcValue
        then set_key object k (baseMergeDeep (get_key object k) srcValue)
        else assignMergeValue object k srcValue)
       qs"
| "merge_elements object i [] = object"
| "merge_elements object i (srcValue # ys) =
     merge_elements
       (if is_container srcValue
        then set_key object (index_key i) (baseMergeDeep (get_key object (index_key i)) srcValue)
        else assignMergeValue object (index_key i) srcValue)
       (Suc i) ys"

text \<open>\<^verbatim>\<open>baseMerge(object, source)\<close>: the keys of a string source are its indices, a number or a
  boolean has none.\<close>

definition baseMerge :: "json \<Rightarrow> json \<Rightarrow> json" where
  "baseMerge object source =
     (case source of
        JObject qs \<Rightarrow> merge_entries object qs
      | JArray ys \<Rightarrow> merge_elements object 0 ys
      | JString s \<Rightarrow> merge_elements object 0 (map (\<lambda>c. JString [c]) s)
      | _ \<Rightarrow> object)"

text \<open>\<^verbatim>\<open>merge(object, ...sources)\<close>: a falsy source is skipped; a destination that is
  \<^verbatim>\<open>undefined\<close> or \<^verbatim>\<open>null\<close> (or another primitive, whose wrapper object has no properties to
  show) starts as the empty object.\<close>

definition merge :: "json \<Rightarrow> json list \<Rightarrow> json" where
  "merge object sources =
     foldl (\<lambda>obj source. if js_truthy source then baseMerge obj source else obj)
       (if is_container object then object else JObject []) sources"

text \<open>What one source property does to the value \<open>cur\<close> that the destination has at its
  key: an array or object is merged into it, any other value but \<^verbatim>\<open>undefined\<close> replaces it.\<close>

definition merge_value :: "json \<Rightarrow> json \<Rightarrow> json" where
  "merge_value cur srcValue =
     (if is_container srcValue then baseMergeDeep cur srcValue
      else if srcValue \<noteq> JUndefined then srcValue else cur)"

text \<open>The values that a property list gives to a key, in order.\<close>

definition values_at :: "(string \<times> json) list \<Rightarrow> string \<Rightarrow> json list" where
  "values_at ps k = map snd (filter (\<lambda>q. fst q = k) ps)"

section \<open>\<^verbatim>\<open>src/lib/babel-custom.js\<close>\<close>

text \<open>
  A \<^verbatim>\<open>ConfigItem\<close> of Babel: the request it was configured with, the resolved path of its
  module, and its options (\<^verbatim>\<open>undefined\<close>, \<^verbatim>\<open>false\<close> or an object). \<^verbatim>\<open>createConfigItem\<close> is called
  with a resolved path, which is then both request and resolved path of the new item. The
  item's type tag (\<^verbatim>\<open>plugin\<close> or \<^verbatim>\<open>preset\<close>) is not modelled.
\<close>

record config_item =
  file_request :: string
  file_resolved :: string
  item_options :: json

definition createConfigItem :: "string \<Rightarrow> json \<Rightarrow> config_item" where
  "createConfigItem path opts =
     \<lparr> file_request = path, file_resolved = path, item_options = opts \<rparr>"

text \<open>\<^verbatim>\<open>findIndex\<close>: \<open>None\<close> is \<^verbatim>\<open>-1\<close>.\<close>

fun findIndex :: "('a \<Rightarrow> bool) \<Rightarrow> 'a list \<Rightarrow> nat option" where
  "findIndex P [] = None"
| "findIndex P (x # xs) =
     (if P x then Some 0 else (case findIndex P xs of None \<Rightarrow> None | Some i \<Rightarrow> Some (Suc i)))"

text \<open>Lines 10 to 29: the body of the inner \<^verbatim>\<open>forEach\<close>.\<close>

definition merge_item :: "config_item list \<Rightarrow> config_item \<Rightarrow> config_item list" where
  "merge_item mergedItems item =
     (case findIndex (\<lambda>mergedItem. file_resolved mergedItem = file_resolved item) mergedItems of
        None \<Rightarrow> mergedItems @ [item]
      | Some i \<Rightarrow>
          mergedItems[i := createConfigItem (file_resolved (mergedItems ! i))
             (merge (item_options (mergedItems ! i)) [item_options item])])"

text \<open>Lines 6 to 33.\<close>

definition mergeConfigItems :: "config_item list list \<Rightarrow> config_item list" where
  "mergeConfigItems configItemsToMerge =
     foldl (\<lambda>mergedItems configItemToMerge. foldl merge_item mergedItems configItemToMerge)
       [] configItemsToMerge"

text \<open>
  What \<^verbatim>\<open>config\<close> reads from outside: \<^verbatim>\<open>require.resolve\<close>, and \<^verbatim>\<open>isTruthy\<close> of \<^verbatim>\<open>../utils\<close>, a
  module that is not among the sources and is taken as a parameter.
\<close>

record babel_env =
  require_resolve :: "string \<Rightarrow> string"
  isTruthy :: "json \<Rightarrow> bool"

text \<open>Lines 35 to 39: an item is a name and the remaining properties.\<close>

definition createConfigItems :: "babel_env \<Rightarrow> (string \<times> (string \<times> json) list) list \<Rightarrow> config_item list" where
  "createConfigItems b items =
     map (\<lambda>(name, opts). createConfigItem (require_resolve b name) (JObject opts)) items"

record custom_options =
  custom_jsx :: json
  custom_jsxFragment :: json
  custom_defines :: json
  custom_targets :: json

text \<open>Lines 55 to 81.\<close>

definition defaultPlugins :: "babel_env \<Rightarrow> custom_options \<Rightarrow> config_item list" where
  "defaultPlugins b customOptions =
     createConfigItems b
       ([(''@babel/plugin-transform-react-jsx'',
           [(''pragma'', js_or (custom_jsx customOptions) (JString ''h'')),
            (''pragmaFrag'', js_or (custom_jsxFragment customOptions) (JString ''Fragment''))])]
        @ (if isTruthy b (custom_defines customOptions)
           then [(''babel-plugin-transform-replace-expressions'',
                   [(''replace'', custom_defines customOptions)])]
           else [])
        @ [(''babel-plugin-transform-async-to-promises'',
             [(''inlineHelpers'', JBool True), (''externalHelpers'', JBool True)]),
           (''@babel/plugin-proposal-class-properties'', [(''loose'', JBool True)]),
           (''@babel/plugin-transform-regenerator'', [(''async'', JBool False)])])"

text \<open>Lines 106 to 112 and 132.\<close>

definition forced_excludes :: json where
  "forced_excludes =
     JArray [JString ''transform-async-to-generator'', JString ''transform-regenerator'']"

text \<open>Lines 91 to 123, the function mapped over the presets. Reading \<^verbatim>\<open>preset.options.exclude\<close>
  throws a \<^verbatim>\<open>TypeError\<close> when the options are \<^verbatim>\<open>undefined\<close> or \<^verbatim>\<open>null\<close>.\<close>

definition override_preset :: "custom_options \<Rightarrow> config_item \<Rightarrow> error + config_item" where
  "override_preset customOptions preset =
     (if file_request preset = ''@babel/preset-env'' then
        (if item_options preset = JUndefined \<or> item_options preset = JNull then Inl TypeError
         else Inr (createConfigItem (file_resolved preset)
                (merge (JObject [(''loose'', JBool True), (''targets'', custom_targets customOptions)])
                   [item_options preset,
                    JObject [(''modules'', JBool False),
                             (''exclude'',
                              merge forced_excludes
                                [js_or (get_key (item_options preset) ''exclude'')
                                   (JArray [])])]])))
      else Inr preset)"

text \<open>Lines 126 to 134.\<close>

definition synthesized_presets :: "babel_env \<Rightarrow> custom_options \<Rightarrow> config_item list" where
  "synthesized_presets b customOptions =
     createConfigItems b
       [(''@babel/preset-env'',
          [(''targets'', custom_targets customOptions), (''modules'', JBool False),
           (''loose'', JBool True), (''exclude'', forced_excludes)])]"

text \<open>The partial configuration that Babel hands to \<^verbatim>\<open>config\<close>, and the options it returns.\<close>

record partial_config =
  hasFilesystemConfig :: bool
  config_presets :: "config_item list option"
  config_plugins :: "config_item list option"

record babel_options =
  presets :: "config_item list option"
  plugins :: "config_item list"

definition plugins_or_empty :: "config_item list option \<Rightarrow> config_item list" where
  "plugins_or_empty ps = (case ps of None \<Rightarrow> [] | Some items \<Rightarrow> items)"

text \<open>Lines 54 to 145.\<close>

definition config :: "babel_env \<Rightarrow> partial_config \<Rightarrow> custom_options \<Rightarrow> error + babel_options" where
  "config b cfg customOptions =
     (if hasFilesystemConfig cfg then
        (case config_presets cfg of
           None \<Rightarrow>
             Inr \<lparr> presets = None,
                   plugins = mergeConfigItems [defaultPlugins b customOptions,
                                               plugins_or_empty (config_plugins cfg)] \<rparr>
         | Some ps \<Rightarrow>
             (case collect (map (override_preset customOptions) ps) of
                Inl err \<Rightarrow> Inl err
              | Inr ps' \<Rightarrow>
                  Inr \<lparr> presets = Some ps',
                        plugins = mergeConfigItems [defaultPlugins b customOptions,
                                                    plugins_or_empty (config_plugins cfg)] \<rparr>))
      else
        Inr \<lparr> presets = Some (synthesized_presets b customOptions),
              plugins = mergeConfigItems [defaultPlugins b customOptions, []] \<rparr>)"

section \<open>Observations and example inputs\<close>

text \<open>What the properties below read from a step: its input, its destination, its aliases,
  its externals and whether it writes the stylesheet.\<close>

definition step_summary ::
  "build_config \<Rightarrow> string \<times> string \<times> string \<times> (string \<times> string) list \<times> string list \<times> bool" where
  "step_summary c = (input c, out_format c, out_file c, paths c, externals c, extract_css c)"

definition run_summary ::
  "env \<Rightarrow> manifest_read \<Rightarrow> run_options
     \<Rightarrow> error + (string \<times> string \<times> string \<times> (string \<times> string) list \<times> string list \<times> bool) list" where
  "run_summary e m ro = map_sum id (map step_summary) (snd (microbundle_steps e m ro))"

text \<open>The destination paths of the steps of a run, or the exception.\<close>

definition run_destinations :: "env \<Rightarrow> manifest_read \<Rightarrow> run_options \<Rightarrow> error + string list" where
  "run_destinations e m ro = map_sum id (map out_file) (snd (microbundle_steps e m ro))"

text \<open>A project in \<^verbatim>\<open>/w\<close> with two source files; \<^verbatim>\<open>src/index.js\<close> has a default and a named
  export, \<^verbatim>\<open>src/cli.js\<close> cannot be read.\<close>

definition example_source :: string where
  "example_source = ''export default foo; export const bar = 1''"

definition example_readFileSync :: "string \<Rightarrow> string option" where
  "example_readFileSync p = (if p = ''/w/src/index.js'' then Some example_source else None)"

definition example_isDir :: "string \<Rightarrow> bool" where
  "example_isDir p = (p = ''/w/src'')"

definition example_isFile :: "string \<Rightarrow> bool" where
  "example_isFile p = (p = ''/w/src/index.js'' \<or> p = ''/w/src/cli.js'')"

definition example_glob :: "string \<Rightarrow> string list" where
  "example_glob p = [p]"

definition example_env :: env where
  "example_env = \<lparr> process_cwd = ''/w'', module_dirname = ''/mb/dist'',
     readFileSync = example_readFileSync, isDir = example_isDir, isFile = example_isFile,
     glob_sync = example_glob, array_sort = insertion_sort \<rparr>"

definition example_pkg :: pkg where
  "example_pkg = empty_pkg \<lparr> pkg_name := Some ''acme'', pkg_main := Some ''dist/acme.js'',
     pkg_module := Some ''dist/acme.module.js'',
     pkg_peerDependencies := Some [''react'', ''react-dom''] \<rparr>"

definition example_options :: options where
  "example_options = \<lparr> cwd = ''/w'', pkg = example_pkg,
     entries = [''/w/src/index.js'', ''/w/src/cli.js''], opt_output = ''/w/dist/acme.js'',
     multipleEntries = True, inline = None, external = None, strict = False \<rparr>"

definition example_run :: run_options where
  "example_run = \<lparr> run_cwd = ''.'', run_entries = Some [''src/index.js'', ''src/cli.js''],
     run_output = None, run_format = Some ''cjs'', run_formats = None, run_watch = False,
     run_inline = None, run_external = None, run_strict = False \<rparr>"

text \<open>An empty directory \<^verbatim>\<open>/w\<close>, and a run without options.\<close>

definition no_path :: "string \<Rightarrow> bool" where
  "no_path p = False"

definition no_match :: "string \<Rightarrow> string list" where
  "no_match p = []"

definition no_file :: "string \<Rightarrow> string option" where
  "no_file p = None"

definition empty_env :: env where
  "empty_env = \<lparr> process_cwd = ''/w'', module_dirname = ''/mb/dist'',
     readFileSync = no_file, isDir = no_path, isFile = no_path,
     glob_sync = no_match, array_sort = insertion_sort \<rparr>"

definition default_run :: run_options where
  "default_run = \<lparr> run_cwd = ''.'', run_entries = None,
     run_output = None, run_format = None, run_formats = Some ''es,cjs,umd'', run_watch = False,
     run_inline = None, run_external = None, run_strict = False \<rparr>"

text \<open>A Babel configuration of the project: a preset and two plugins of its own, one of
  them the JSX transform that is also among the defaults. \<open>final_preset_options\<close> reads the
  options of the presets that \<^verbatim>\<open>config\<close> returns.\<close>

definition example_resolve :: "string \<Rightarrow> string" where
  "example_resolve name = ''/w/node_modules/'' @ name"

definition example_babel :: babel_env where
  "example_babel = \<lparr> require_resolve = example_resolve, isTruthy = js_truthy \<rparr>"

definition example_custom :: custom_options where
  "example_custom = \<lparr> custom_jsx = JUndefined, custom_jsxFragment = JUndefined,
     custom_defines = JUndefined, custom_targets = JString ''ie 11'' \<rparr>"

definition user_jsx :: config_item where
  "user_jsx = \<lparr> file_request = ''@babel/plugin-transform-react-jsx'',
     file_resolved = ''/w/node_modules/@babel/plugin-transform-react-jsx'',
     item_options = JObject [(''pragma'', JString ''React.createElement'')] \<rparr>"

definition user_macros :: config_item where
  "user_macros = \<lparr> file_request = ''babel-plugin-macros'',
     file_resolved = ''/w/node_modules/babel-plugin-macros'', item_options = JUndefined \<rparr>"

definition user_preset :: config_item where
  "user_preset = \<lparr> file_request = ''@babel/preset-env'',
     file_resolved = ''/w/node_modules/@babel/preset-env'',
     item_options = JObject [(''loose'', JBool False),
       (''exclude'', JArray [JString ''transform-typeof-symbol''])] \<rparr>"

definition example_config :: partial_config where
  "example_config = \<lparr> hasFilesystemConfig = True, config_presets = Some [user_preset],
     config_plugins = Some [user_jsx, user_macros] \<rparr>"

definition final_preset_options :: "error + babel_options \<Rightarrow> json list" where
  "final_preset_options r =
     (case r of
        Inr bo \<Rightarrow> (case presets bo of Some ps \<Rightarrow> map item_options ps | None \<Rightarrow> [])
      | Inl err \<Rightarrow> [])"

definition twice_first :: config_item where
  "twice_first = \<lparr> file_request = ''x'', file_resolved = ''/p/x'',
     item_options = JObject [(''a'', JNumber 1)] \<rparr>"

definition twice_second :: config_item where
  "twice_second = \<lparr> file_request = ''x'', file_resolved = ''/p/x'',
     item_options = JObject [(''b'', JNumber 2)] \<rparr>"

text \<open>A second configuration, whose preset declares neither \<^verbatim>\<open>loose\<close> nor \<^verbatim>\<open>exclude\<close>.\<close>

definition plain_preset :: config_item where
  "plain_preset = \<lparr> file_request = ''@babel/preset-env'',
     file_resolved = ''/w/node_modules/@babel/preset-env'',
     item_options = JObject [(''useBuiltIns'', JString ''usage'')] \<rparr>"

definition plain_config :: partial_config where
  "plain_config = \<lparr> hasFilesystemConfig = True, config_presets = Some [plain_preset],
     config_plugins = None \<rparr>"

definition no_config :: partial_config where
  "no_config = \<lparr> hasFilesystemConfig = False, config_presets = None, config_plugins = None \<rparr>"

text \<open>The example project built for three formats, on each of the two sort implementations.\<close>

definition three_formats_run :: run_options where
  "three_formats_run = example_run \<lparr> run_format := Some ''umd,amd,cjs'' \<rparr>"

definition example_env_v7 :: env where
  "example_env_v7 = example_env \<lparr> array_sort := binary_insertion_sort \<rparr>"

text \<open>The example project with two index files as entries, built for two formats.\<close>

definition colliding_run :: run_options where
  "colliding_run = example_run \<lparr> run_entries := Some [''src/index.js'', ''lib/index.js''],
     run_format := Some ''cjs,iife'' \<rparr>"

text \<open>The example project with an entry whose default export is an object literal, and with
  peer dependencies that are not all in lower case. \<open>step_shape\<close> reads the input and the
  \<^verbatim>\<open>exports\<close> mode of a step, \<open>step_externals\<close> its externals and \<open>step_global\<close> a binding of its
  globals.\<close>

definition object_default_source :: string where
  "object_default_source = ''export default {a: 1}; export const b = 2''"

definition object_default_read :: "string \<Rightarrow> string option" where
  "object_default_read p = (if p = ''/w/src/index.js'' then Some object_default_source else None)"

definition object_default_env :: env where
  "object_default_env = example_env \<lparr> readFileSync := object_default_read \<rparr>"

definition capital_pkg :: pkg where
  "capital_pkg = example_pkg \<lparr> pkg_peerDependencies := Some [''React'', ''react'', ''class''] \<rparr>"

definition capital_options :: options where
  "capital_options = example_options \<lparr> pkg := capital_pkg \<rparr>"

definition step_shape :: "error + build_config \<Rightarrow> error + string \<times> string option" where
  "step_shape r = map_sum id (\<lambda>c. (input c, exports c)) r"

definition step_externals :: "error + build_config \<Rightarrow> string list" where
  "step_externals r = (case r of Inr c \<Rightarrow> externals c | Inl err \<Rightarrow> [])"

definition step_global :: "error + build_config \<Rightarrow> string \<Rightarrow> string option" where
  "step_global r name = (case r of Inr c \<Rightarrow> globals c name | Inl err \<Rightarrow> None)"

section \<open>Properties of \<^verbatim>\<open>createConfig\<close>\<close>

lemma foldl_add_global:
  "foldl add_global g ext name =
     (if name \<in> set ext \<and> matches_global_name name \<and> name \<noteq> ''__proto__''
      then Some name else g name)"
  by (induction ext arbitrary: g) (auto simp: add_global_def assign_string_def)

lemma proto_never_bound: "make_globals ext ''__proto__'' = None"
  by (simp add: make_globals_def foldl_add_global)

lemma createConfig_Inr:
  assumes "createConfig e opts entry format writeMeta = Inr c"
  obtains nr ext where "dependency_mode opts entry = Inr (nr, ext)"
    and "c = \<lparr> input = (if exportType e entry format \<noteq> None then wrapper_entry e else entry),
                    externals = ext,
                    extract_css = writeMeta,
                    useNodeResolve = nr,
                    exports = (if exportType e entry format \<noteq> None then Some ''default'' else None),
                    paths = aliases opts,
                    globals = make_globals ext,
                    strict_mode = strict opts,
                    out_format = format,
                    out_file = output_file e opts entry format \<rparr>"
  using assms by (auto simp: createConfig_def Let_def split: sum.splits)

lemma example_createConfig:
  "\<exists>c. createConfig example_env example_options entry format writeMeta = Inr c"
  by (simp add: createConfig_def dependency_mode_def example_options_def Let_def)

lemma example_externals:
  "createConfig example_env example_options ''/w/src/index.js'' ''cjs'' True = Inr c \<Longrightarrow>
   externals c = [''dns'', ''fs'', ''path'', ''url'', ''react'', ''react-dom'', ''/w/src/cli.js'', ''.'']"
  by (erule createConfig_Inr)
     (simp add: dependency_mode_def external_with_alias_def base_external_def
        builtin_externals_def object_keys_def example_options_def example_pkg_def empty_pkg_def)

lemma matches_react: "matches_global_name ''react''"
  by (simp add: matches_global_name_def ident_start_def ident_part_def is_lower_def is_digit_def)

lemma not_matches_react_dom: "\<not> matches_global_name ''react-dom''"
  by (simp add: matches_global_name_def ident_start_def ident_part_def is_lower_def is_digit_def)

text \<open>
  \<^bold>\<open>C9\<close>, as stated, fails: with the peer dependencies \<^verbatim>\<open>React\<close>, \<^verbatim>\<open>react\<close> and \<^verbatim>\<open>class\<close>, all three
  are externals, but the identifier \<^verbatim>\<open>React\<close> gets no global binding, while the reserved word
  \<^verbatim>\<open>class\<close>, which is no identifier, gets one.
\<close>

theorem capital_identifier_unbound:
  "step_externals (createConfig example_env capital_options ''/w/src/index.js'' ''umd'' False)
     = [''dns'', ''fs'', ''path'', ''url'', ''React'', ''react'', ''class'', ''/w/src/cli.js'', ''.'']
   \<and> step_global (createConfig example_env capital_options ''/w/src/index.js'' ''umd'' False)
       ''React'' = None
   \<and> step_global (createConfig example_env capital_options ''/w/src/index.js'' ''umd'' False)
       ''react'' = Some ''react''
   \<and> step_global (createConfig example_env capital_options ''/w/src/index.js'' ''umd'' False)
       ''class'' = Some ''class''"
  by code_simp

text \<open>
  \<^bold>\<open>C9\<close>, amended. For every name in the externals of a configuration, other than
  \<^verbatim>\<open>__proto__\<close>, the globals map binds the name to itself if and only if the name matches the
  pattern of line 152, \<^verbatim>\<open>^[a-z_$][a-z0-9_$]*$\<close>: a lower-case letter, \<^verbatim>\<open>_\<close> or \<^verbatim>\<open>$\<close>, followed by
  lower-case letters, digits, \<^verbatim>\<open>_\<close> and \<^verbatim>\<open>$\<close>.
\<close>

theorem globals_iff_pattern:
  assumes "createConfig e opts entry format writeMeta = Inr c"
    and "name \<in> set (externals c)"
    and "name \<noteq> ''__proto__''"
  shows "(globals c name = Some name) = matches_global_name name"
proof -
  from assms(1) obtain nr ext where c: "externals c = ext" "globals c = make_globals ext"
    by (elim createConfig_Inr) simp
  with assms(2,3) show ?thesis
    by (simp add: make_globals_def foldl_add_global)
qed

text \<open>In the example project, \<^verbatim>\<open>react\<close> is bound to itself and \<^verbatim>\<open>react-dom\<close> is not.\<close>

theorem globals_iff_pattern_witness:
  "\<exists>c. createConfig example_env example_options ''/w/src/index.js'' ''cjs'' True = Inr c
       \<and> ''react'' \<in> set (externals c) \<and> globals c ''react'' = Some ''react''
       \<and> ''react-dom'' \<in> set (externals c) \<and> globals c ''react-dom'' \<noteq> Some ''react-dom''"
proof -
  obtain c where c: "createConfig example_env example_options ''/w/src/index.js'' ''cjs'' True = Inr c"
    using example_createConfig by blast
  have m1: "''react'' \<in> set (externals c)" and m2: "''react-dom'' \<in> set (externals c)"
    by (simp_all add: example_externals [OF c])
  have n1: "''react'' \<noteq> ''__proto__''" and n2: "''react-dom'' \<noteq> ''__proto__''"
    by simp_all
  from globals_iff_pattern [OF c m1 n1] globals_iff_pattern [OF c m2 n2]
  have "globals c ''react'' = Some ''react''" "globals c ''react-dom'' \<noteq> Some ''react-dom''"
    by (simp_all add: matches_react not_matches_react_dom)
  with c m1 m2 show ?thesis by blast
qed

text \<open>
  \<^bold>\<open>C10.\<close> When the second branch of lines 142 to 148 is taken (\<^verbatim>\<open>inline\<close> is not \<^verbatim>\<open>'all'\<close>, and
  \<^verbatim>\<open>external\<close> is \<^verbatim>\<open>'all'\<close> or \<^verbatim>\<open>inline\<close> is \<^verbatim>\<open>'none'\<close>), \<^verbatim>\<open>createConfig\<close> throws a \<^verbatim>\<open>TypeError\<close>
  exactly when the manifest has no \<^verbatim>\<open>dependencies\<close>: it does not treat the missing field as an
  empty dependency set.
\<close>

theorem dependencies_missing_throws:
  assumes "inline opts \<noteq> Some ''all''"
    and "external opts = Some ''all'' \<or> inline opts = Some ''none''"
  shows "(createConfig e opts entry format writeMeta = Inl TypeError)
       = (pkg_dependencies (pkg opts) = None)"
  using assms by (auto simp: createConfig_def dependency_mode_def Let_def split: option.splits)

text \<open>The example project has no \<^verbatim>\<open>dependencies\<close>: both modes throw, and with a
  \<^verbatim>\<open>dependencies\<close> object the same call does not.\<close>

theorem dependencies_missing_throws_witness:
  "createConfig example_env (example_options\<lparr>external := Some ''all''\<rparr>)
     ''/w/src/index.js'' ''cjs'' True = Inl TypeError
   \<and> createConfig example_env (example_options\<lparr>inline := Some ''none''\<rparr>)
     ''/w/src/index.js'' ''cjs'' True = Inl TypeError
   \<and> createConfig example_env
       (example_options\<lparr>external := Some ''all'',
          pkg := example_pkg\<lparr>pkg_dependencies := Some [''lodash'']\<rparr>\<rparr>)
     ''/w/src/index.js'' ''cjs'' True \<noteq> Inl TypeError"
proof -
  have "createConfig example_env (example_options\<lparr>external := Some ''all''\<rparr>)
     ''/w/src/index.js'' ''cjs'' True = Inl TypeError"
    using dependencies_missing_throws [of "example_options\<lparr>external := Some ''all''\<rparr>"]
    by (simp add: example_options_def example_pkg_def empty_pkg_def)
  moreover have "createConfig example_env (example_options\<lparr>inline := Some ''none''\<rparr>)
     ''/w/src/index.js'' ''cjs'' True = Inl TypeError"
    using dependencies_missing_throws [of "example_options\<lparr>inline := Some ''none''\<rparr>"]
    by (simp add: example_options_def example_pkg_def empty_pkg_def)
  moreover have "createConfig example_env
       (example_options\<lparr>external := Some ''all'',
          pkg := example_pkg\<lparr>pkg_dependencies := Some [''lodash'']\<rparr>\<rparr>)
     ''/w/src/index.js'' ''cjs'' True \<noteq> Inl TypeError"
    using dependencies_missing_throws [of "example_options\<lparr>external := Some ''all'',
          pkg := example_pkg\<lparr>pkg_dependencies := Some [''lodash'']\<rparr>\<rparr>"]
    by (simp add: example_options_def)
  ultimately show ?thesis by simp
qed

lemma search_at_here: "P s \<Longrightarrow> search_at P after True s"
  by (cases s) simp_all

lemma search_at_append:
  "P s \<Longrightarrow> (before = [] \<longrightarrow> ok) \<Longrightarrow> (before \<noteq> [] \<longrightarrow> after (last before)) \<Longrightarrow>
   search_at P after ok (before @ s)"
proof (induction before arbitrary: ok)
  case Nil
  then show ?case by (cases s) simp_all
next
  case (Cons c cs)
  show ?case
  proof (cases "cs = []")
    case True
    with Cons.prems have "search_at P after (after c) s"
      by (cases s) simp_all
    with True show ?thesis by simp
  next
    case False
    with Cons.prems have "search_at P after (after c) (cs @ s)"
      by (intro Cons.IH) simp_all
    then show ?thesis by simp
  qed
qed

lemma skip_space_white: "white ws \<Longrightarrow> skip_space (ws @ x) = skip_space x"
  by (induction ws) (simp_all add: white_def skip_space_def)

lemma skip_space_stop: "\<not> is_space c \<Longrightarrow> skip_space (c # x) = c # x"
  by (simp add: skip_space_def)

lemma name_char_not_space:
  "is_lower c \<or> is_upper c \<or> c = CHR ''_'' \<or> c = CHR ''$'' \<or> c = CHR ''*'' \<Longrightarrow> \<not> is_space c"
  by (auto simp: is_lower_def is_upper_def is_space_def)

lemma export_default_here_shape:
  assumes "white ws1" and "white ws2"
    and "is_lower c \<or> is_upper c \<or> c = CHR ''_'' \<or> c = CHR ''$''"
  shows "export_default_here (''export'' @ ws1 @ ''default'' @ ws2 @ c # rest)"
proof -
  have d: "\<not> is_space CHR ''d''" by (simp add: is_space_def)
  have c: "\<not> is_space c" using assms(3) name_char_not_space [of c] by blast
  have "skip_space (ws1 @ ''default'' @ ws2 @ c # rest) = ''default'' @ ws2 @ c # rest"
    using skip_space_white [OF assms(1)] skip_space_stop [OF d] by simp
  moreover have "skip_space (ws2 @ c # rest) = c # rest"
    using skip_space_white [OF assms(2)] skip_space_stop [OF c] by simp
  ultimately show ?thesis
    using assms(3) by (simp add: export_default_here_def starts_with_def next_char_in_def)
qed

lemma hasDefault_shape:
  assumes "default_export_of_name file"
  shows "hasDefault file"
proof -
  from assms obtain before ws1 ws2 c rest where
    shape: "file = before @ (''export'' @ ws1 @ ''default'' @ ws2 @ c # rest)"
    and b: "at_word_boundary before" and w: "white ws1" "white ws2"
    and c: "is_lower c \<or> is_upper c \<or> c = CHR ''_'' \<or> c = CHR ''$''"
    unfolding default_export_of_name_def by blast
  have "export_default_here (''export'' @ ws1 @ ''default'' @ ws2 @ c # rest)"
    using w c by (rule export_default_here_shape)
  then have "search_at export_default_here (\<lambda>c. \<not> is_word c) True
      (before @ (''export'' @ ws1 @ ''default'' @ ws2 @ c # rest))"
    using b by (intro search_at_append) (auto simp: at_word_boundary_def)
  then show ?thesis by (simp only: hasDefault_def shape)
qed

lemma keyword_start:
  "\<forall>kw\<in>set [''let'', ''const'', ''var'', ''async'', ''function'']. kw \<noteq> [] \<and> \<not> is_space (hd kw)"
  by (simp add: is_space_def)

lemma keyword_listed:
  "\<forall>kw\<in>set [''let'', ''const'', ''var'', ''async'', ''function'']. kw \<in> set export_keywords"
  by (simp add: export_keywords_def)

lemma export_declaration_here_shape:
  assumes "white ws1" and "white ws2"
    and "kw \<in> set [''let'', ''const'', ''var'', ''async'', ''function'']"
    and "is_lower c \<or> is_upper c \<or> c = CHR ''_'' \<or> c = CHR ''$'' \<or> c = CHR ''*''"
  shows "export_declaration_here (''export'' @ ws1 @ kw @ ws2 @ c # rest)"
proof -
  let ?cls = "\<lambda>c. is_lower c \<or> is_upper c \<or> c = CHR ''_'' \<or> c = CHR ''$'' \<or> c = CHR ''*''"
  let ?r = "kw @ ws2 @ c # rest"
  have c: "\<not> is_space c" using assms(4) by (rule name_char_not_space)
  from assms(3) keyword_start have "kw \<noteq> []" and "\<not> is_space (hd kw)"
    by blast+
  then obtain k ks where kw: "kw = k # ks" and k: "\<not> is_space k"
    by (cases kw) auto
  have "skip_space (ws1 @ k # ks @ ws2 @ c # rest) = k # ks @ ws2 @ c # rest"
    using skip_space_white [OF assms(1)] skip_space_stop [OF k] by simp
  then have r: "skip_space (ws1 @ ?r) = ?r"
    by (simp add: kw)
  have n: "skip_space (ws2 @ c # rest) = c # rest"
    using skip_space_white [OF assms(2)] skip_space_stop [OF c] by simp
  have listed: "kw \<in> set export_keywords"
    using assms(3) keyword_listed by blast
  have "starts_with ?r kw"
    by (simp add: starts_with_def)
  moreover have "next_char_in ?cls (drop (length kw) ?r)"
    using assms(4) by (simp add: next_char_in_def n)
  ultimately have "list_ex (\<lambda>kw. starts_with ?r kw \<and> next_char_in ?cls (drop (length kw) ?r))
      export_keywords"
    unfolding list_ex_iff using listed by blast
  moreover have "starts_with (''export'' @ ws1 @ ?r) ''export''"
    and "drop 6 (''export'' @ ws1 @ ?r) = ws1 @ ?r"
    by (simp_all add: starts_with_def)
  ultimately show ?thesis
    unfolding export_declaration_here_def Let_def by (simp only: r simp_thms)
qed

lemma export_list_here_shape:
  assumes "white ws0" and "white ws1"
  shows "export_list_here (ws0 @ ''export'' @ ws1 @ ''{'' @ rest)"
proof -
  have e: "\<not> is_space CHR ''e''" and b: "\<not> is_space CHR ''{''"
    by (simp_all add: is_space_def)
  have "skip_space (ws0 @ ''export'' @ ws1 @ ''{'' @ rest) = ''export'' @ ws1 @ ''{'' @ rest"
    using skip_space_white [OF assms(1)] skip_space_stop [OF e] by simp
  moreover have "skip_space (ws1 @ ''{'' @ rest) = ''{'' @ rest"
    using skip_space_white [OF assms(2)] skip_space_stop [OF b] by simp
  ultimately show ?thesis
    by (simp add: export_list_here_def starts_with_def)
qed

lemma hasNamed_shape:
  assumes "export_of_declaration file \<or> export_of_list file"
  shows "hasNamed file"
  using assms
proof
  assume "export_of_declaration file"
  then obtain before ws1 kw ws2 c rest where
    shape: "file = before @ (''export'' @ ws1 @ kw @ ws2 @ c # rest)"
    and b: "at_word_boundary before" and w: "white ws1" "white ws2"
    and kw: "kw \<in> set [''let'', ''const'', ''var'', ''async'', ''function'']"
    and c: "is_lower c \<or> is_upper c \<or> c = CHR ''_'' \<or> c = CHR ''$'' \<or> c = CHR ''*''"
    unfolding export_of_declaration_def by blast
  have "export_declaration_here (''export'' @ ws1 @ kw @ ws2 @ c # rest)"
    using w kw c by (rule export_declaration_here_shape)
  then have "search_at export_declaration_here (\<lambda>c. \<not> is_word c) True
      (before @ (''export'' @ ws1 @ kw @ ws2 @ c # rest))"
    using b by (intro search_at_append) (auto simp: at_word_boundary_def)
  then show ?thesis by (simp only: hasNamed_def shape) simp
next
  assume "export_of_list file"
  then obtain before ws0 ws1 rest where
    shape: "file = before @ (ws0 @ ''export'' @ ws1 @ ''{'' @ rest)"
    and b: "at_line_start before" and w: "white ws0" "white ws1"
    unfolding export_of_list_def by blast
  have "export_list_here (ws0 @ ''export'' @ ws1 @ ''{'' @ rest)"
    using w by (rule export_list_here_shape)
  then have "search_at export_list_here is_line_terminator True
      (before @ (ws0 @ ''export'' @ ws1 @ ''{'' @ rest))"
    using b by (intro search_at_append) (auto simp: at_line_start_def)
  then show ?thesis by (simp only: hasNamed_def shape) simp
qed

lemma example_default_export: "default_export_of_name example_source"
  unfolding default_export_of_name_def example_source_def
  by (rule exI [of _ "[]"], rule exI [of _ "'' ''"], rule exI [of _ "'' ''"],
      rule exI [of _ "CHR ''f''"], rule exI [of _ "''oo; export const bar = 1''"])
     (simp add: at_word_boundary_def white_def is_space_def is_lower_def)

lemma example_named_export: "export_of_declaration example_source"
  unfolding export_of_declaration_def example_source_def
  by (rule exI [of _ "''export default foo; ''"], rule exI [of _ "'' ''"],
      rule exI [of _ "''const''"], rule exI [of _ "'' ''"], rule exI [of _ "CHR ''b''"],
      rule exI [of _ "''ar = 1''"])
     (simp add: at_word_boundary_def white_def is_space_def is_lower_def is_upper_def
        is_digit_def is_word_def)

lemmas path_defs = resolve_def path_resolve_def join_step_def starts_with_def
  normalize_segments_def push_segment_def join_absolute_def basename_def dirname_def is_slash_def

text \<open>
  \<^bold>\<open>C5\<close>, as stated, fails: the entry \<^verbatim>\<open>export default {a: 1}; export const b = 2\<close> has a
  default export and a named export, and built for \<^verbatim>\<open>umd\<close> it keeps its own path as input
  and gets no \<^verbatim>\<open>exports\<close> mode.
\<close>

theorem object_default_not_wrapped:
  "readFileSync object_default_env ''/w/src/index.js''
     = Some ''export default {a: 1}; export const b = 2''
   \<and> step_shape (createConfig object_default_env example_options ''/w/src/index.js'' ''umd'' False)
     = Inr (''/w/src/index.js'', None)"
  by code_simp

text \<open>
  \<^bold>\<open>C5\<close>, amended. Take an entry whose text has, at a word boundary, \<^verbatim>\<open>export\<close>, \<^verbatim>\<open>default\<close> and
  then a letter, \<^verbatim>\<open>_\<close> or \<^verbatim>\<open>$\<close> (a default export of a named value), and also has either, at a
  word boundary, \<^verbatim>\<open>export\<close>, one of \<^verbatim>\<open>let\<close>, \<^verbatim>\<open>const\<close>, \<^verbatim>\<open>var\<close>, \<^verbatim>\<open>async\<close>, \<^verbatim>\<open>function\<close> and then a
  letter, \<^verbatim>\<open>_\<close>, \<^verbatim>\<open>$\<close> or \<^verbatim>\<open>*\<close>, or, at the start of a line, \<^verbatim>\<open>export\<close> and \<^verbatim>\<open>{\<close> (white space
  may stand between the parts). Built for a format other than \<^verbatim>\<open>es\<close>, its input is the wrapper
  entry and its \<^verbatim>\<open>exports\<close> mode is \<^verbatim>\<open>'default'\<close>. Built for \<^verbatim>\<open>es\<close>, any entry keeps its own path and
  gets no \<^verbatim>\<open>exports\<close> mode; so does, for any format, an entry that cannot be read.
\<close>

theorem export_shape_substitution:
  assumes "createConfig e opts entry format writeMeta = Inr c"
  shows "(format \<noteq> ''es'' \<longrightarrow>
            (\<forall>text. readFileSync e entry = Some text \<longrightarrow> default_export_of_name text \<longrightarrow>
               export_of_declaration text \<or> export_of_list text \<longrightarrow>
               input c = wrapper_entry e \<and> exports c = Some ''default''))
       \<and> (format = ''es'' \<longrightarrow> input c = entry \<and> exports c = None)
       \<and> (readFileSync e entry = None \<longrightarrow> input c = entry \<and> exports c = None)"
proof -
  from assms have
    "input c = (if exportType e entry format \<noteq> None then wrapper_entry e else entry)"
    "exports c = (if exportType e entry format \<noteq> None then Some ''default'' else None)"
    by (auto elim!: createConfig_Inr)
  moreover have "exportType e entry format = Some ''default''"
    if "format \<noteq> ''es''" "readFileSync e entry = Some src" "default_export_of_name src"
      "export_of_declaration src \<or> export_of_list src" for src
    using that hasDefault_shape [of src] hasNamed_shape [of src]
    by (simp add: exportType_def)
  moreover have "exportType e entry format = None"
    if "format = ''es'' \<or> readFileSync e entry = None"
    using that by (auto simp: exportType_def)
  ultimately show ?thesis by auto
qed

text \<open>The example entry built for \<^verbatim>\<open>umd\<close> and for \<^verbatim>\<open>es\<close>, and the unreadable entry built for
  \<^verbatim>\<open>umd\<close>.\<close>

theorem export_shape_substitution_witness:
  "(\<exists>c. createConfig example_env example_options ''/w/src/index.js'' ''umd'' False = Inr c
        \<and> input c = ''/mb/src/lib/__entry__.js'' \<and> exports c = Some ''default'')
   \<and> (\<exists>c. createConfig example_env example_options ''/w/src/index.js'' ''es'' False = Inr c
        \<and> input c = ''/w/src/index.js'' \<and> exports c = None)
   \<and> (\<exists>c. createConfig example_env example_options ''/w/src/cli.js'' ''umd'' False = Inr c
        \<and> input c = ''/w/src/cli.js'' \<and> exports c = None)"
proof -
  have read: "readFileSync example_env ''/w/src/index.js'' = Some example_source"
    and unread: "readFileSync example_env ''/w/src/cli.js'' = None"
    by (simp_all add: example_env_def example_readFileSync_def)
  have wrapper: "wrapper_entry example_env = ''/mb/src/lib/__entry__.js''"
    by (simp add: wrapper_entry_def example_env_def path_defs)
  obtain c1 where c1:
    "createConfig example_env example_options ''/w/src/index.js'' ''umd'' False = Inr c1"
    using example_createConfig by blast
  obtain c2 where c2:
    "createConfig example_env example_options ''/w/src/index.js'' ''es'' False = Inr c2"
    using example_createConfig by blast
  obtain c3 where c3:
    "createConfig example_env example_options ''/w/src/cli.js'' ''umd'' False = Inr c3"
    using example_createConfig by blast
  from export_shape_substitution [OF c1] read example_default_export example_named_export wrapper
  have "input c1 = ''/mb/src/lib/__entry__.js'' \<and> exports c1 = Some ''default''" by simp
  moreover from export_shape_substitution [OF c2]
  have "input c2 = ''/w/src/index.js'' \<and> exports c2 = None" by simp
  moreover from export_shape_substitution [OF c3] unread
  have "input c3 = ''/w/src/cli.js'' \<and> exports c3 = None" by simp
  ultimately show ?thesis using c1 c2 c3 by blast
qed

lemma collect_Inr: "collect rs = Inr xs \<Longrightarrow> rs = map Inr xs"
  by (induction rs arbitrary: xs rule: collect.induct) (auto split: sum.splits)

lemma createConfig_alias:
  assumes "createConfig e opts entry format writeMeta = Inr c"
  shows "paths c = aliases opts"
    and "multipleEntries opts \<Longrightarrow> ''.'' \<in> set (externals c)"
  using assms
  by (auto simp: createConfig_def dependency_mode_def external_with_alias_def Let_def
      split: sum.splits if_splits option.splits)

lemma example_make_steps:
  "\<exists>c1 c2. make_steps example_env example_options [''cjs''] = Inr [c1, c2]"
proof -
  obtain c1 where c1:
    "createConfig example_env example_options ''/w/src/index.js'' ''cjs'' True = Inr c1"
    using example_createConfig by blast
  obtain c2 where c2:
    "createConfig example_env example_options ''/w/src/cli.js'' ''cjs'' False = Inr c2"
    using example_createConfig by blast
  have "step_pairs (entries example_options) [''cjs'']
      = [(''/w/src/index.js'', ''cjs'', True), (''/w/src/cli.js'', ''cjs'', False)]"
    by (simp add: step_pairs_def example_options_def)
  then have "make_steps example_env example_options [''cjs''] = Inr [c1, c2]"
    by (simp add: make_steps_def c1 c2)
  then show ?thesis by blast
qed

text \<open>
  \<^bold>\<open>C6\<close>, as stated, fails: in a run with the two entries \<^verbatim>\<open>src/index.js\<close> and \<^verbatim>\<open>src/cli.js\<close>
  the step of the second entry also carries the alias of \<^verbatim>\<open>.\<close> and has \<^verbatim>\<open>.\<close> among its
  externals.
\<close>

theorem alias_on_second_entry:
  "run_summary example_env (Manifest example_pkg) example_run
   = Inr [(''/mb/src/lib/__entry__.js'', ''cjs'', ''/w/dist/acme.js'', [(''.'', ''./acme.js'')],
            [''dns'', ''fs'', ''path'', ''url'', ''react'', ''react-dom'', ''/w/src/cli.js'', ''.''],
            True),
          (''/w/src/cli.js'', ''cjs'', ''/w/dist/cli.js'', [(''.'', ''./acme.js'')],
            [''dns'', ''fs'', ''path'', ''url'', ''react'', ''react-dom'', ''/w/src/index.js'', ''.''],
            False)]"
  by code_simp

text \<open>
  \<^bold>\<open>C6\<close>, amended. When the run has multiple entries, every step of the run, whatever its
  entry and format, has the alias from \<^verbatim>\<open>.\<close> to \<^verbatim>\<open>./\<close> followed by the base name of the
  main output path as its only alias, and has \<^verbatim>\<open>.\<close> among its externals.
\<close>

theorem alias_for_every_step:
  assumes "multipleEntries opts"
    and "make_steps e opts formats = Inr steps"
    and "c \<in> set steps"
  shows "paths c = [(''.'', ''./'' @ basename (opt_output opts))] \<and> ''.'' \<in> set (externals c)"
proof -
  from assms(2) have "map (\<lambda>(entry, format, writeMeta). createConfig e opts entry format writeMeta)
      (step_pairs (entries opts) formats) = map Inr steps"
    unfolding make_steps_def by (rule collect_Inr)
  with assms(3) have "Inr c \<in> set (map (\<lambda>(entry, format, writeMeta).
      createConfig e opts entry format writeMeta) (step_pairs (entries opts) formats))"
    by simp
  then obtain entry format writeMeta
    where "createConfig e opts entry format writeMeta = Inr c"
    by auto
  with assms(1) createConfig_alias [of e opts entry format writeMeta c]
  show ?thesis by (simp add: aliases_def)
qed

text \<open>The two steps of the example project built for \<^verbatim>\<open>cjs\<close>.\<close>

theorem alias_for_every_step_witness:
  "\<exists>c1 c2. make_steps example_env example_options [''cjs''] = Inr [c1, c2]
     \<and> paths c2 = [(''.'', ''./acme.js'')] \<and> ''.'' \<in> set (externals c2)"
proof -
  obtain c1 c2 where steps: "make_steps example_env example_options [''cjs''] = Inr [c1, c2]"
    using example_make_steps by blast
  have multi: "multipleEntries example_options"
    by (simp add: example_options_def)
  have "c2 \<in> set [c1, c2]" by simp
  from alias_for_every_step [OF multi steps this]
  have "paths c2 = [(''.'', ''./acme.js'')] \<and> ''.'' \<in> set (externals c2)"
    by (simp add: example_options_def basename_def is_slash_def)
  with steps show ?thesis by blast
qed

section \<open>Properties of \<^verbatim>\<open>microbundle\<close>\<close>

lemma indexOf_notin: "x \<notin> set arr \<Longrightarrow> indexOf arr x = -1"
  by (induction arr) (auto simp: Let_def)

lemma indexOf_in: "x \<in> set arr \<Longrightarrow> 0 \<le> indexOf arr x \<and> indexOf arr x < int (length arr)"
  by (induction arr) (auto simp: Let_def)

lemma indexOf_append:
  "indexOf (xs @ ys) y =
     (if y \<in> set xs then indexOf xs y
      else if indexOf ys y < 0 then -1 else int (length xs) + indexOf ys y)"
proof (induction xs)
  case Nil
  then show ?case
    by (cases "y \<in> set ys") (use indexOf_in [of y ys] in \<open>auto simp: indexOf_notin\<close>)
next
  case (Cons x xs)
  then show ?case
    using indexOf_in [of y xs] by (auto simp: Let_def)
qed

lemma first_occurrences_snoc:
  "first_occurrences (xs @ [x]) = first_occurrences xs @ (if x \<in> set xs then [] else [x])"
proof -
  have keep: "filter (\<lambda>(item, i). indexOf (xs @ [x]) item = int i) (zip xs [0..<length xs])
            = filter (\<lambda>(item, i). indexOf xs item = int i) (zip xs [0..<length xs])"
    by (rule filter_cong) (auto simp: indexOf_append dest: set_zip_leftD)
  have last: "indexOf (xs @ [x]) x = int (length xs) \<longleftrightarrow> x \<notin> set xs"
    using indexOf_in [of x xs] by (auto simp: indexOf_append)
  show ?thesis
    by (simp add: first_occurrences_def keep last)
qed

lemma first_occurrences_remdups: "first_occurrences arr = rev (remdups (rev arr))"
proof (induction arr rule: rev_induct)
  case Nil
  then show ?case by (simp add: first_occurrences_def)
next
  case (snoc x xs)
  then show ?case by (simp add: first_occurrences_snoc)
qed

text \<open>
  \<^bold>\<open>C7.\<close> The entries of a run are the resolved input paths (made absolute, a directory
  replaced by its \<^verbatim>\<open>index.js\<close>) with every path kept once, at its first occurrence.
\<close>

theorem entries_unique_first_occurrence:
  "distinct (entries (resolved_options e ro p inp))
   \<and> set (entries (resolved_options e ro p inp))
       = set (map (entry_file e (resolve (process_cwd e) (process_cwd e) (run_cwd ro))) inp)
   \<and> entries (resolved_options e ro p inp)
       = rev (remdups (rev (map (entry_file e
            (resolve (process_cwd e) (process_cwd e) (run_cwd ro))) inp)))"
  by (simp add: resolved_options_def Let_def resolve_entries_def first_occurrences_remdups)

text \<open>
  \<^bold>\<open>C8.\<close> Without explicit entries, without a manifest, and with neither a \<^verbatim>\<open>src\<close> directory
  nor an \<^verbatim>\<open>index.js\<close> file in the working directory, the run prints the warning of the
  missing manifest (and the one of the missing name), then throws; no step reaches the
  bundling engine.
\<close>

theorem no_entry_is_fatal:
  assumes "run_entries ro = None \<or> run_entries ro = Some []"
    and "\<not> isDir e (resolve (process_cwd e)
            (resolve (process_cwd e) (process_cwd e) (run_cwd ro)) ''src'')"
    and "\<not> isFile e (resolve (process_cwd e)
            (resolve (process_cwd e) (process_cwd e) (run_cwd ro)) ''index.js'')"
  shows "microbundle e NoManifest ro =
     [Warned NoPackageJson,
      Warned (MissingName (basename (resolve (process_cwd e) (process_cwd e) (run_cwd ro)))),
      Thrown TypeError]"
  using assms
  by (auto simp: microbundle_def microbundle_steps_def load_manifest_def default_name_def
      empty_pkg_def truthy_def entry_candidates_def Let_def)

text \<open>A run without options in an empty directory.\<close>

theorem no_entry_is_fatal_witness:
  "microbundle empty_env NoManifest default_run =
     [Warned NoPackageJson, Warned (MissingName ''w''), Thrown TypeError]"
proof -
  have dir: "resolve (process_cwd empty_env) (process_cwd empty_env) (run_cwd default_run) = ''/w''"
    by (simp add: empty_env_def default_run_def path_defs)
  have "run_entries default_run = None \<or> run_entries default_run = Some []"
    by (simp add: default_run_def)
  moreover have "\<not> isDir empty_env (resolve (process_cwd empty_env)
      (resolve (process_cwd empty_env) (process_cwd empty_env) (run_cwd default_run)) ''src'')"
    by (simp add: empty_env_def no_path_def)
  moreover have "\<not> isFile empty_env (resolve (process_cwd empty_env)
      (resolve (process_cwd empty_env) (process_cwd empty_env) (run_cwd default_run)) ''index.js'')"
    by (simp add: empty_env_def no_path_def)
  ultimately have "microbundle empty_env NoManifest default_run =
     [Warned NoPackageJson,
      Warned (MissingName (basename (resolve (process_cwd empty_env) (process_cwd empty_env)
         (run_cwd default_run)))),
      Thrown TypeError]"
    by (rule no_entry_is_fatal)
  then show ?thesis
    by (simp add: dir basename_def is_slash_def)
qed

text \<open>
  \<^bold>\<open>C2.\<close> The comparator of line 76 is not a consistent ordering: it puts \<^verbatim>\<open>cjs\<close> before \<^verbatim>\<open>amd\<close>
  when \<^verbatim>\<open>cjs\<close> is its first argument and calls the two equal when \<^verbatim>\<open>cjs\<close> is its second, and
  it never answers that its first argument comes first unless that is \<^verbatim>\<open>cjs\<close>. For the formats
  \<^verbatim>\<open>umd,amd,cjs\<close> the insertion sort leaves \<^verbatim>\<open>cjs\<close> behind \<^verbatim>\<open>amd\<close>, and the binary insertion
  puts \<^verbatim>\<open>cjs\<close> first but leaves \<^verbatim>\<open>umd\<close> before \<^verbatim>\<open>amd\<close>.
\<close>

theorem cjs_not_first:
  "scheduled_formats example_env three_formats_run = Inr [''amd'', ''cjs'', ''umd'']
   \<and> scheduled_formats example_env_v7 three_formats_run = Inr [''cjs'', ''umd'', ''amd'']
   \<and> compare_formats ''cjs'' ''amd'' = -1 \<and> compare_formats ''amd'' ''cjs'' = 0
   \<and> compare_formats ''amd'' ''umd'' = 0 \<and> compare_formats ''umd'' ''amd'' = 1"
  by code_simp

section \<open>Properties of \<^verbatim>\<open>lodash.merge\<close> and of the plugin merge\<close>

lemma get_set_property:
  "get_property (set_property ps k v) k' = (if k' = k then v else get_property ps k')"
  by (induction ps) auto

lemma get_property_absent: "k \<notin> set (map fst ps) \<Longrightarrow> get_property ps k = JUndefined"
  by (induction ps) auto

lemma merge_step_object:
  "\<exists>ps'. (if is_container sv then set_key (JObject ps) k (baseMergeDeep (get_key (JObject ps) k) sv)
           else assignMergeValue (JObject ps) k sv) = JObject ps'
         \<and> (\<forall>k'. get_property ps' k' =
               (if k' = k then merge_value (get_property ps k) sv else get_property ps k'))"
  by (auto simp: set_key_def get_key_def assignMergeValue_def has_key_def merge_value_def
      get_set_property get_property_absent)

lemma merge_entries_object:
  "\<exists>ps'. merge_entries (JObject ps) qs = JObject ps'
         \<and> (\<forall>k. get_property ps' k =
               foldl merge_value (get_property ps k) (values_at qs k))"
proof (induction qs arbitrary: ps)
  case Nil
  then show ?case by (simp add: values_at_def)
next
  case (Cons q qs)
  obtain k sv where q: "q = (k, sv)" by (cases q)
  from merge_step_object [of sv ps k] obtain ps1 where
    step: "(if is_container sv then set_key (JObject ps) k (baseMergeDeep (get_key (JObject ps) k) sv)
           else assignMergeValue (JObject ps) k sv) = JObject ps1"
    and get1: "\<And>k'. get_property ps1 k' =
               (if k' = k then merge_value (get_property ps k) sv else get_property ps k')"
    by blast
  from Cons.IH [of ps1] obtain ps' where
    rest: "merge_entries (JObject ps1) qs = JObject ps'"
    and get': "\<And>k'. get_property ps' k' =
               foldl merge_value (get_property ps1 k') (values_at qs k')"
    by blast
  have "merge_entries (JObject ps) (q # qs) = JObject ps'"
    using step rest by (simp add: q)
  moreover have "\<And>k'. get_property ps' k' =
      foldl merge_value (get_property ps k') (values_at (q # qs) k')"
    by (simp add: get' get1 q values_at_def)
  ultimately show ?case by blast
qed

lemma get_key_merge_objects:
  "get_key (merge (JObject pa) [JObject pb]) k =
     foldl merge_value (get_property pa k) (values_at pb k)"
proof -
  obtain ps' where "merge_entries (JObject pa) pb = JObject ps'"
    and "\<And>k. get_property ps' k =
               foldl merge_value (get_property pa k) (values_at pb k)"
    using merge_entries_object [of pa pb] by blast
  then show ?thesis
    by (simp add: merge_def js_truthy_def is_container_def baseMerge_def get_key_def)
qed

lemma findIndex_None: "findIndex P xs = None \<longleftrightarrow> (\<forall>x\<in>set xs. \<not> P x)"
  by (induction xs) (auto split: option.splits)

lemma findIndex_Some:
  "findIndex P xs = Some i \<Longrightarrow> i < length xs \<and> P (xs ! i)"
  by (induction xs arbitrary: i) (auto split: option.splits if_splits)

lemma paths_merge_item:
  "map file_resolved (merge_item ms it) =
     (if file_resolved it \<in> set (map file_resolved ms) then map file_resolved ms
      else map file_resolved ms @ [file_resolved it])"
proof (cases "findIndex (\<lambda>m. file_resolved m = file_resolved it) ms")
  case None
  then have "file_resolved it \<notin> set (map file_resolved ms)"
    by (auto simp: findIndex_None)
  then show ?thesis
    by (simp add: merge_item_def None)
next
  case (Some i)
  from findIndex_Some [OF Some] have i: "i < length ms" "file_resolved (ms ! i) = file_resolved it"
    by simp_all
  then have "file_resolved it \<in> set (map file_resolved ms)"
    by (metis length_map nth_map nth_mem)
  moreover have "map file_resolved (ms[i := createConfigItem (file_resolved (ms ! i))
       (merge (item_options (ms ! i)) [item_options it])]) = map file_resolved ms"
    using i by (simp add: map_update createConfigItem_def list_update_same_conv)
  ultimately show ?thesis
    by (simp add: merge_item_def Some)
qed

lemma first_seen_snoc:
  "rev (remdups (rev (ps @ [q]))) =
     (if q \<in> set ps then rev (remdups (rev ps)) else rev (remdups (rev ps)) @ [q])"
  by simp

lemma paths_foldl_merge_item:
  "map file_resolved (foldl merge_item [] xs) = rev (remdups (rev (map file_resolved xs)))"
proof (induction xs rule: rev_induct)
  case Nil
  then show ?case by simp
next
  case (snoc x xs)
  have "set (map file_resolved (foldl merge_item [] xs)) = set (map file_resolved xs)"
    by (simp only: snoc.IH) simp
  then show ?case
    by (simp add: paths_merge_item snoc.IH del: set_map)
qed

lemma mergeConfigItems_two: "mergeConfigItems [A, B] = foldl merge_item [] (A @ B)"
  by (simp add: mergeConfigItems_def)

lemma merge_item_keeps_others:
  "m \<in> set ms \<Longrightarrow> file_resolved m \<noteq> file_resolved it \<Longrightarrow> m \<in> set (merge_item ms it)"
proof (cases "findIndex (\<lambda>m. file_resolved m = file_resolved it) ms")
  case None
  assume "m \<in> set ms"
  then show ?thesis by (simp add: merge_item_def None)
next
  case (Some i)
  assume m: "m \<in> set ms" "file_resolved m \<noteq> file_resolved it"
  from findIndex_Some [OF Some] have i: "i < length ms" "file_resolved (ms ! i) = file_resolved it"
    by simp_all
  from m(1) obtain j where j: "j < length ms" "ms ! j = m"
    by (auto simp: in_set_conv_nth)
  with m(2) i have "j \<noteq> i" by auto
  with j have "(ms[i := createConfigItem (file_resolved (ms ! i))
       (merge (item_options (ms ! i)) [item_options it])]) ! j = m"
    by simp
  with j(1) show ?thesis
    by (simp add: merge_item_def Some) (metis length_list_update nth_mem)
qed

lemma merge_item_appends:
  "file_resolved it \<notin> set (map file_resolved ms) \<Longrightarrow> it \<in> set (merge_item ms it)"
proof -
  assume "file_resolved it \<notin> set (map file_resolved ms)"
  then have "findIndex (\<lambda>m. file_resolved m = file_resolved it) ms = None"
    by (auto simp: findIndex_None image_iff)
  then show ?thesis by (simp add: merge_item_def)
qed

lemma foldl_merge_item_keeps:
  "m \<in> set ms \<Longrightarrow> file_resolved m \<notin> set (map file_resolved xs) \<Longrightarrow>
   m \<in> set (foldl merge_item ms xs)"
  by (induction xs arbitrary: ms) (auto intro: merge_item_keeps_others)

lemma paths_foldl_set:
  "set (map file_resolved (foldl merge_item ms xs)) = set (map file_resolved ms) \<union> set (map file_resolved xs)"
  by (induction xs arbitrary: ms) (auto simp: paths_merge_item simp del: set_map split: if_splits)

lemma once_split:
  assumes "it \<in> set xs" and "count_list (map file_resolved xs) (file_resolved it) = 1"
  obtains ys zs where "xs = ys @ it # zs"
    and "file_resolved it \<notin> set (map file_resolved ys)"
    and "file_resolved it \<notin> set (map file_resolved zs)"
proof -
  from assms(1) obtain ys zs where xs: "xs = ys @ it # zs"
    by (auto simp: in_set_conv_decomp)
  from assms(2) have "count_list (map file_resolved ys) (file_resolved it) = 0"
    and "count_list (map file_resolved zs) (file_resolved it) = 0"
    by (simp_all add: xs)
  then have "file_resolved it \<notin> set (map file_resolved ys)"
    and "file_resolved it \<notin> set (map file_resolved zs)"
    by (simp_all add: count_list_0_iff del: set_map)
  with xs show ?thesis by (rule that)
qed

lemma unique_item_passes:
  assumes "it \<in> set xs" and "count_list (map file_resolved xs) (file_resolved it) = 1"
  shows "it \<in> set (foldl merge_item [] xs)"
proof -
  from assms obtain ys zs where xs: "xs = ys @ it # zs"
    and ys: "file_resolved it \<notin> set (map file_resolved ys)"
    and zs: "file_resolved it \<notin> set (map file_resolved zs)"
    by (rule once_split)
  have "file_resolved it \<notin> set (map file_resolved (foldl merge_item [] ys))"
    using ys by (simp add: paths_foldl_set del: set_map)
  then have "it \<in> set (merge_item (foldl merge_item [] ys) it)"
    by (rule merge_item_appends)
  then have "it \<in> set (foldl merge_item (merge_item (foldl merge_item [] ys) it) zs)"
    using zs by (rule foldl_merge_item_keeps)
  then show ?thesis by (simp add: xs)
qed

lemma distinct_paths_foldl: "distinct (map file_resolved (foldl merge_item [] xs))"
  by (simp add: paths_foldl_merge_item)

lemma merge_item_merges:
  assumes "distinct (map file_resolved ms)" and "a \<in> set ms"
    and "file_resolved a = file_resolved b"
  shows "createConfigItem (file_resolved a) (merge (item_options a) [item_options b])
           \<in> set (merge_item ms b)"
proof -
  from assms(2,3) have "\<not> (\<forall>x\<in>set ms. file_resolved x \<noteq> file_resolved b)" by auto
  then obtain i where Some: "findIndex (\<lambda>m. file_resolved m = file_resolved b) ms = Some i"
    by (cases "findIndex (\<lambda>m. file_resolved m = file_resolved b) ms")
       (auto simp: findIndex_None)
  from findIndex_Some [OF Some] have i: "i < length ms" "file_resolved (ms ! i) = file_resolved b"
    by simp_all
  from assms(2) obtain j where j: "j < length ms" "ms ! j = a"
    by (auto simp: in_set_conv_nth)
  with i assms(1,3) have "i = j"
    by (metis distinct_conv_nth length_map nth_map)
  with i j show ?thesis
    by (simp add: merge_item_def Some) (metis length_list_update nth_list_update_eq nth_mem)
qed

lemma merged_pair:
  assumes "a \<in> set A" and "b \<in> set B" and "file_resolved a = file_resolved b"
    and "count_list (map file_resolved A) (file_resolved a) = 1"
    and "count_list (map file_resolved B) (file_resolved b) = 1"
  shows "createConfigItem (file_resolved a) (merge (item_options a) [item_options b])
           \<in> set (foldl merge_item [] (A @ B))"
proof -
  let ?c = "createConfigItem (file_resolved a) (merge (item_options a) [item_options b])"
  from assms(2,5) obtain ys zs where B: "B = ys @ b # zs"
    and ys: "file_resolved b \<notin> set (map file_resolved ys)"
    and zs: "file_resolved b \<notin> set (map file_resolved zs)"
    by (rule once_split)
  have "a \<in> set (foldl merge_item [] A)"
    using assms(1,4) by (rule unique_item_passes)
  moreover have "file_resolved a \<notin> set (map file_resolved ys)"
    using ys assms(3) by simp
  ultimately have "a \<in> set (foldl merge_item (foldl merge_item [] A) ys)"
    by (rule foldl_merge_item_keeps)
  then have a: "a \<in> set (foldl merge_item [] (A @ ys))" by simp
  have "?c \<in> set (merge_item (foldl merge_item [] (A @ ys)) b)"
    using distinct_paths_foldl a assms(3) by (rule merge_item_merges)
  moreover have "file_resolved ?c \<notin> set (map file_resolved zs)"
    using zs assms(3) by (simp add: createConfigItem_def)
  ultimately have "?c \<in> set (foldl merge_item (merge_item (foldl merge_item [] (A @ ys)) b) zs)"
    by (rule foldl_merge_item_keeps)
  then show ?thesis by (simp add: B)
qed

lemma values_at_once:
  "distinct (map fst ps) \<Longrightarrow> (k, v) \<in> set ps \<Longrightarrow> values_at ps k = [v]"
proof (induction ps)
  case Nil
  then show ?case by simp
next
  case (Cons q ps)
  have absent: "k \<notin> fst ` set ps \<Longrightarrow> filter (\<lambda>q. fst q = k) ps = []"
    by (auto simp: filter_empty_conv)
  from Cons show ?case
    by (cases q) (auto simp: values_at_def absent image_iff)
qed

lemma values_at_absent: "k \<notin> set (map fst ps) \<Longrightarrow> values_at ps k = []"
  by (auto simp: values_at_def filter_empty_conv)

lemma foldl_merge_value_undefined:
  "\<forall>v\<in>set vs. v = JUndefined \<Longrightarrow> foldl merge_value cur vs = cur"
  by (induction vs) (auto simp: merge_value_def is_container_def)

lemma foldl_merge_value_plain:
  "\<not> is_container cur \<Longrightarrow> \<forall>v\<in>set vs. \<not> is_container v \<Longrightarrow>
   \<not> is_container (foldl merge_value cur vs)"
  by (induction vs arbitrary: cur) (auto simp: merge_value_def)

lemma falsy_plain: "\<not> js_truthy v \<Longrightarrow> \<not> is_container v"
  by (cases v) (auto simp: js_truthy_def is_container_def)

lemma merge_forced_fresh:
  "\<not> is_container cur \<Longrightarrow> merge_value cur forced_excludes = forced_excludes"
proof -
  have "merge_elements (JArray []) 0
          [JString ''transform-async-to-generator'', JString ''transform-regenerator'']
        = forced_excludes"
    by code_simp
  moreover assume "\<not> is_container cur"
  then have "\<not> is_array cur"
    by (cases cur) (auto simp: is_container_def is_array_def)
  ultimately show ?thesis
    by (simp add: merge_value_def forced_excludes_def is_container_def)
qed

lemma merge_forced_empty: "merge forced_excludes [JArray []] = forced_excludes"
  by code_simp

lemma get_property_first:
  "get_property ps k = (case values_at ps k of [] \<Rightarrow> JUndefined | v # vs \<Rightarrow> v)"
  by (induction ps) (auto simp: values_at_def)

lemma get_property_in_values:
  "get_property ps k = JUndefined \<or> get_property ps k \<in> set (values_at ps k)"
  by (simp add: get_property_first split: list.splits)

lemma get_key_merge_two:
  "get_key (merge (JObject t) [JObject ps, JObject qs]) k =
     foldl merge_value (foldl merge_value (get_property t k) (values_at ps k)) (values_at qs k)"
proof -
  obtain t1 where 1: "merge_entries (JObject t) ps = JObject t1"
    and g1: "\<And>k. get_property t1 k = foldl merge_value (get_property t k) (values_at ps k)"
    using merge_entries_object [of t ps] by blast
  obtain t2 where 2: "merge_entries (JObject t1) qs = JObject t2"
    and g2: "\<And>k. get_property t2 k = foldl merge_value (get_property t1 k) (values_at qs k)"
    using merge_entries_object [of t1 qs] by blast
  show ?thesis
    by (simp add: merge_def js_truthy_def is_container_def baseMerge_def get_key_def 1 2 g1 g2)
qed

lemma override_object:
  assumes "file_request preset = ''@babel/preset-env''" and "item_options preset = JObject ps"
  shows "\<exists>p'. override_preset customOptions preset = Inr p'
     \<and> file_resolved p' = file_resolved preset
     \<and> get_key (item_options p') ''modules'' = JBool False
     \<and> ((\<forall>v. (''loose'', v) \<in> set ps \<longrightarrow> v = JUndefined)
          \<longrightarrow> get_key (item_options p') ''loose'' = JBool True)
     \<and> ((\<forall>v. (''exclude'', v) \<in> set ps \<longrightarrow> \<not> js_truthy v)
          \<longrightarrow> get_key (item_options p') ''exclude'' = forced_excludes)"
proof -
  let ?inner = "merge forced_excludes [js_or (get_key (JObject ps) ''exclude'') (JArray [])]"
  let ?opts = "merge (JObject [(''loose'', JBool True), (''targets'', custom_targets customOptions)])
                 [JObject ps, JObject [(''modules'', JBool False), (''exclude'', ?inner)]]"
  have eq: "override_preset customOptions preset
      = Inr (createConfigItem (file_resolved preset) ?opts)"
    using assms by (simp add: override_preset_def)
  have modules: "get_key ?opts ''modules'' = JBool False"
    by (simp add: get_key_merge_two values_at_def merge_value_def is_container_def)
  have loose: "get_key ?opts ''loose'' = JBool True"
    if "\<forall>v. (''loose'', v) \<in> set ps \<longrightarrow> v = JUndefined"
  proof -
    from that have "\<forall>v\<in>set (values_at ps ''loose''). v = JUndefined"
      by (auto simp: values_at_def)
    then show ?thesis
      by (simp add: get_key_merge_two foldl_merge_value_undefined)
         (simp add: values_at_def)
  qed
  have exclude: "get_key ?opts ''exclude'' = forced_excludes"
    if falsy: "\<forall>v. (''exclude'', v) \<in> set ps \<longrightarrow> \<not> js_truthy v"
  proof -
    from falsy have vals: "\<forall>v\<in>set (values_at ps ''exclude''). \<not> js_truthy v"
      by (auto simp: values_at_def)
    with get_property_in_values [of ps "''exclude''"]
    have "\<not> js_truthy (get_property ps ''exclude'')"
      by (auto simp: js_truthy_def)
    then have inner: "?inner = forced_excludes"
      by (simp add: js_or_def get_key_def merge_forced_empty)
    from vals have "\<forall>v\<in>set (values_at ps ''exclude''). \<not> is_container v"
      by (auto dest: falsy_plain)
    then have "\<not> is_container (foldl merge_value JUndefined (values_at ps ''exclude''))"
      by (intro foldl_merge_value_plain) (simp_all add: is_container_def)
    then show ?thesis
      by (simp add: get_key_merge_two inner)
         (simp add: values_at_def merge_forced_fresh)
  qed
  show ?thesis
    using modules loose exclude by (simp add: eq createConfigItem_def)
qed

text \<open>
  \<^bold>\<open>C3\<close>, as stated, fails for a list that names one resolved path twice: the two items are
  merged into one new item, although their path occurs in only one of the lists.
\<close>

theorem repeated_path_is_merged:
  "mergeConfigItems [[twice_first, twice_second], []]
   = [\<lparr> file_request = ''/p/x'', file_resolved = ''/p/x'',
        item_options = JObject [(''a'', JNumber 1), (''b'', JNumber 2)] \<rparr>]"
  by code_simp

text \<open>
  \<^bold>\<open>C3\<close>, amended. The merge of two lists \<open>A\<close> and \<open>B\<close> has exactly one item for each
  resolved path, in the order in which the paths are first seen in \<open>A\<close> followed by \<open>B\<close>. An
  item whose path occurs once in the two lists together passes through unchanged. When a
  path occurs once in \<open>A\<close> and once in \<open>B\<close>, the result has at that path a new item whose
  options are the merge of \<open>A\<close>'s options with \<open>B\<close>'s; in that merge a key of \<open>B\<close> takes \<open>B\<close>'s
  value (merged into \<open>A\<close>'s when it is an array or an object, and ignored when it is
  \<^verbatim>\<open>undefined\<close>), and a key that \<open>B\<close> does not have keeps \<open>A\<close>'s value.
\<close>

theorem plugin_merge:
  "distinct (map file_resolved (mergeConfigItems [A, B]))
   \<and> map file_resolved (mergeConfigItems [A, B]) = rev (remdups (rev (map file_resolved (A @ B))))
   \<and> (\<forall>it \<in> set (A @ B). count_list (map file_resolved (A @ B)) (file_resolved it) = 1
         \<longrightarrow> it \<in> set (mergeConfigItems [A, B]))
   \<and> (\<forall>a \<in> set A. \<forall>b \<in> set B.
         file_resolved a = file_resolved b
         \<longrightarrow> count_list (map file_resolved A) (file_resolved a) = 1
         \<longrightarrow> count_list (map file_resolved B) (file_resolved b) = 1
         \<longrightarrow> createConfigItem (file_resolved a) (merge (item_options a) [item_options b])
               \<in> set (mergeConfigItems [A, B]))
   \<and> (\<forall>pa pb k v. distinct (map fst pb) \<longrightarrow> (k, v) \<in> set pb
         \<longrightarrow> get_key (merge (JObject pa) [JObject pb]) k = merge_value (get_property pa k) v)
   \<and> (\<forall>pa pb k. k \<notin> set (map fst pb)
         \<longrightarrow> get_key (merge (JObject pa) [JObject pb]) k = get_property pa k)"
  unfolding mergeConfigItems_two
  by (intro conjI ballI allI impI distinct_paths_foldl paths_foldl_merge_item
      unique_item_passes merged_pair)
     (simp_all add: get_key_merge_objects values_at_once values_at_absent del: set_map)

text \<open>The defaults merged with the example project's plugins: the JSX transform takes the
  project's pragma and keeps the default fragment pragma, and the project's other plugin
  passes through.\<close>

theorem plugin_merge_witness:
  "user_macros \<in> set (mergeConfigItems [defaultPlugins example_babel example_custom,
                                          [user_jsx, user_macros]])
   \<and> createConfigItem ''/w/node_modules/@babel/plugin-transform-react-jsx''
        (JObject [(''pragma'', JString ''React.createElement''),
                  (''pragmaFrag'', JString ''Fragment'')])
      \<in> set (mergeConfigItems [defaultPlugins example_babel example_custom,
                                 [user_jsx, user_macros]])
   \<and> get_key (merge (JObject [(''pragma'', JString ''h''), (''pragmaFrag'', JString ''Fragment'')])
                [JObject [(''pragma'', JString ''React.createElement'')]]) ''pragma''
      = JString ''React.createElement''
   \<and> get_key (merge (JObject [(''pragma'', JString ''h''), (''pragmaFrag'', JString ''Fragment'')])
                [JObject [(''pragma'', JString ''React.createElement'')]]) ''pragmaFrag''
      = JString ''Fragment''"
proof -
  let ?A = "defaultPlugins example_babel example_custom"
  let ?B = "[user_jsx, user_macros]"
  let ?a = "createConfigItem ''/w/node_modules/@babel/plugin-transform-react-jsx''
              (JObject [(''pragma'', JString ''h''), (''pragmaFrag'', JString ''Fragment'')])"
  note spec = plugin_merge [of ?A ?B]
  have macros: "user_macros \<in> set (?A @ ?B)" by simp
  have macros_once:
    "count_list (map file_resolved (?A @ ?B)) (file_resolved user_macros) = 1"
    by code_simp
  have a: "?a \<in> set ?A" by code_simp
  have b: "user_jsx \<in> set ?B" by simp
  have same: "file_resolved ?a = file_resolved user_jsx" by code_simp
  have a_once: "count_list (map file_resolved ?A) (file_resolved ?a) = 1" by code_simp
  have b_once: "count_list (map file_resolved ?B) (file_resolved user_jsx) = 1" by code_simp
  have merged: "merge (item_options ?a) [item_options user_jsx]
      = JObject [(''pragma'', JString ''React.createElement''),
                 (''pragmaFrag'', JString ''Fragment'')]"
    by code_simp
  from spec macros macros_once have "user_macros \<in> set (mergeConfigItems [?A, ?B])"
    by blast
  moreover from spec a b same a_once b_once
  have "createConfigItem (file_resolved ?a) (merge (item_options ?a) [item_options user_jsx])
      \<in> set (mergeConfigItems [?A, ?B])"
    by blast
  then have "createConfigItem ''/w/node_modules/@babel/plugin-transform-react-jsx''
        (JObject [(''pragma'', JString ''React.createElement''),
                  (''pragmaFrag'', JString ''Fragment'')])
      \<in> set (mergeConfigItems [?A, ?B])"
    by (simp only: merged) (simp add: createConfigItem_def)
  moreover have "distinct (map fst [(''pragma'', JString ''React.createElement'')])"
    and "(''pragma'', JString ''React.createElement'')
           \<in> set [(''pragma'', JString ''React.createElement'')]"
    and "''pragmaFrag'' \<notin> set (map fst [(''pragma'', JString ''React.createElement'')])"
    by simp_all
  with spec have "get_key (merge (JObject [(''pragma'', JString ''h''),
        (''pragmaFrag'', JString ''Fragment'')])
        [JObject [(''pragma'', JString ''React.createElement'')]]) ''pragma''
      = merge_value (get_property [(''pragma'', JString ''h''),
          (''pragmaFrag'', JString ''Fragment'')] ''pragma'') (JString ''React.createElement'')"
    and "get_key (merge (JObject [(''pragma'', JString ''h''),
        (''pragmaFrag'', JString ''Fragment'')])
        [JObject [(''pragma'', JString ''React.createElement'')]]) ''pragmaFrag''
      = get_property [(''pragma'', JString ''h''), (''pragmaFrag'', JString ''Fragment'')]
          ''pragmaFrag''"
    by blast+
  ultimately show ?thesis
    by (simp add: merge_value_def is_container_def)
qed

lemma collect_all:
  "\<forall>p\<in>set ps. \<exists>p'. f p = Inr p' \<Longrightarrow>
   \<exists>ps'. collect (map f ps) = Inr ps' \<and> length ps' = length ps
        \<and> (\<forall>i<length ps. f (ps ! i) = Inr (ps' ! i))"
proof (induction ps)
  case Nil
  then show ?case by simp
next
  case (Cons p ps)
  then obtain p' where p': "f p = Inr p'" by auto
  from Cons obtain ps' where ps': "collect (map f ps) = Inr ps'" "length ps' = length ps"
    "\<forall>i<length ps. f (ps ! i) = Inr (ps' ! i)"
    by auto
  have "collect (map f (p # ps)) = Inr (p' # ps')"
    by (simp add: p' ps')
  moreover have "\<forall>i<length (p # ps). f ((p # ps) ! i) = Inr ((p' # ps') ! i)"
    using p' ps'(3) by (auto simp: nth_Cons split: nat.splits)
  ultimately show ?case using ps'(2) by auto
qed

lemma override_other:
  "file_request preset \<noteq> ''@babel/preset-env'' \<Longrightarrow> override_preset co preset = Inr preset"
  by (simp add: override_preset_def)

text \<open>
  \<^bold>\<open>C1\<close>, as stated, fails for a project whose preset declares \<^verbatim>\<open>loose: false\<close> and an exclude
  of its own: the final options have \<^verbatim>\<open>loose\<close> false, and the declared exclude has taken the
  place of \<^verbatim>\<open>transform-async-to-generator\<close>.
\<close>

theorem declared_options_override:
  "final_preset_options (config example_babel example_config example_custom)
   = [JObject [(''loose'', JBool False), (''targets'', JString ''ie 11''),
        (''exclude'', JArray [JString ''transform-typeof-symbol'',
                              JString ''transform-regenerator'']),
        (''modules'', JBool False)]]"
  by code_simp

text \<open>
  \<^bold>\<open>C1\<close>, amended. The synthesized preset has \<^verbatim>\<open>modules\<close> false, \<^verbatim>\<open>loose\<close> true and exactly the
  two forced excludes. A preset requested as \<^verbatim>\<open>@babel/preset-env\<close> in the project's
  configuration, with an options object, is replaced by an item at the same resolved path
  whose options have \<^verbatim>\<open>modules\<close> false for every target descriptor and every declared
  option; \<^verbatim>\<open>loose\<close> true when the project declares no \<^verbatim>\<open>loose\<close>; and the two forced excludes when
  the project declares no exclude.
\<close>

theorem environment_preset_override:
  "(\<not> hasFilesystemConfig cfg \<longrightarrow>
      final_preset_options (config b cfg co)
        = [JObject [(''targets'', custom_targets co), (''modules'', JBool False),
                    (''loose'', JBool True), (''exclude'', forced_excludes)]])
   \<and> (hasFilesystemConfig cfg \<longrightarrow> config_presets cfg = Some ps \<longrightarrow>
        (\<forall>p\<in>set ps. file_request p = ''@babel/preset-env''
            \<longrightarrow> (\<exists>props. item_options p = JObject props)) \<longrightarrow>
        (\<exists>bo ps'. config b cfg co = Inr bo \<and> presets bo = Some ps' \<and> length ps' = length ps
           \<and> (\<forall>i<length ps. \<forall>props.
                 file_request (ps ! i) = ''@babel/preset-env'' \<longrightarrow>
                 item_options (ps ! i) = JObject props \<longrightarrow>
                 file_resolved (ps' ! i) = file_resolved (ps ! i)
                 \<and> get_key (item_options (ps' ! i)) ''modules'' = JBool False
                 \<and> ((\<forall>v. (''loose'', v) \<in> set props \<longrightarrow> v = JUndefined)
                      \<longrightarrow> get_key (item_options (ps' ! i)) ''loose'' = JBool True)
                 \<and> ((\<forall>v. (''exclude'', v) \<in> set props \<longrightarrow> \<not> js_truthy v)
                      \<longrightarrow> get_key (item_options (ps' ! i)) ''exclude'' = forced_excludes))))"
proof (intro conjI impI)
  assume "\<not> hasFilesystemConfig cfg"
  then show "final_preset_options (config b cfg co)
        = [JObject [(''targets'', custom_targets co), (''modules'', JBool False),
                    (''loose'', JBool True), (''exclude'', forced_excludes)]]"
    by (simp add: config_def final_preset_options_def synthesized_presets_def
        createConfigItems_def createConfigItem_def)
next
  assume fs: "hasFilesystemConfig cfg" and ps: "config_presets cfg = Some ps"
    and objects: "\<forall>p\<in>set ps. file_request p = ''@babel/preset-env''
            \<longrightarrow> (\<exists>props. item_options p = JObject props)"
  have "\<forall>p\<in>set ps. \<exists>p'. override_preset co p = Inr p'"
  proof
    fix p assume "p \<in> set ps"
    show "\<exists>p'. override_preset co p = Inr p'"
    proof (cases "file_request p = ''@babel/preset-env''")
      case True
      with objects \<open>p \<in> set ps\<close> obtain props where "item_options p = JObject props" by blast
      with True override_object [of p props co] show ?thesis by blast
    next
      case False
      then show ?thesis by (simp add: override_other)
    qed
  qed
  from collect_all [OF this] obtain ps' where
    ps': "collect (map (override_preset co) ps) = Inr ps'" "length ps' = length ps"
    and each: "\<forall>i<length ps. override_preset co (ps ! i) = Inr (ps' ! i)"
    by blast
  let ?bo = "\<lparr> presets = Some ps',
      plugins = mergeConfigItems [defaultPlugins b co, plugins_or_empty (config_plugins cfg)] \<rparr>"
  have "config b cfg co = Inr ?bo"
    by (simp add: config_def fs ps ps')
  moreover have "\<forall>i<length ps. \<forall>props.
                 file_request (ps ! i) = ''@babel/preset-env'' \<longrightarrow>
                 item_options (ps ! i) = JObject props \<longrightarrow>
                 file_resolved (ps' ! i) = file_resolved (ps ! i)
                 \<and> get_key (item_options (ps' ! i)) ''modules'' = JBool False
                 \<and> ((\<forall>v. (''loose'', v) \<in> set props \<longrightarrow> v = JUndefined)
                      \<longrightarrow> get_key (item_options (ps' ! i)) ''loose'' = JBool True)
                 \<and> ((\<forall>v. (''exclude'', v) \<in> set props \<longrightarrow> \<not> js_truthy v)
                      \<longrightarrow> get_key (item_options (ps' ! i)) ''exclude'' = forced_excludes)"
  proof (intro allI impI)
    fix i props
    assume i: "i < length ps" and env: "file_request (ps ! i) = ''@babel/preset-env''"
      and props: "item_options (ps ! i) = JObject props"
    from override_object [OF env props, of co] each i
    show "file_resolved (ps' ! i) = file_resolved (ps ! i)
                 \<and> get_key (item_options (ps' ! i)) ''modules'' = JBool False
                 \<and> ((\<forall>v. (''loose'', v) \<in> set props \<longrightarrow> v = JUndefined)
                      \<longrightarrow> get_key (item_options (ps' ! i)) ''loose'' = JBool True)
                 \<and> ((\<forall>v. (''exclude'', v) \<in> set props \<longrightarrow> \<not> js_truthy v)
                      \<longrightarrow> get_key (item_options (ps' ! i)) ''exclude'' = forced_excludes)"
      by auto
  qed
  ultimately show "\<exists>bo ps'. config b cfg co = Inr bo \<and> presets bo = Some ps' \<and> length ps' = length ps
           \<and> (\<forall>i<length ps. \<forall>props.
                 file_request (ps ! i) = ''@babel/preset-env'' \<longrightarrow>
                 item_options (ps ! i) = JObject props \<longrightarrow>
                 file_resolved (ps' ! i) = file_resolved (ps ! i)
                 \<and> get_key (item_options (ps' ! i)) ''modules'' = JBool False
                 \<and> ((\<forall>v. (''loose'', v) \<in> set props \<longrightarrow> v = JUndefined)
                      \<longrightarrow> get_key (item_options (ps' ! i)) ''loose'' = JBool True)
                 \<and> ((\<forall>v. (''exclude'', v) \<in> set props \<longrightarrow> \<not> js_truthy v)
                      \<longrightarrow> get_key (item_options (ps' ! i)) ''exclude'' = forced_excludes))"
    using ps'(2) by (intro exI [of _ ?bo] exI [of _ ps']) simp
qed

text \<open>The synthesized preset, and the preset of a project that declares neither \<^verbatim>\<open>loose\<close> nor
  an exclude.\<close>

theorem environment_preset_override_witness:
  "final_preset_options (config example_babel no_config example_custom)
     = [JObject [(''targets'', JString ''ie 11''), (''modules'', JBool False),
                 (''loose'', JBool True), (''exclude'', forced_excludes)]]
   \<and> (\<exists>bo p'. config example_babel plain_config example_custom = Inr bo
         \<and> presets bo = Some [p']
         \<and> file_resolved p' = ''/w/node_modules/@babel/preset-env''
         \<and> get_key (item_options p') ''modules'' = JBool False
         \<and> get_key (item_options p') ''loose'' = JBool True
         \<and> get_key (item_options p') ''exclude'' = forced_excludes)"
proof -
  note synth = environment_preset_override [of no_config example_babel example_custom "[]"]
  note fs = environment_preset_override [of plain_config example_babel example_custom
      "[plain_preset]"]
  have "\<not> hasFilesystemConfig no_config" by (simp add: no_config_def)
  with synth have first: "final_preset_options (config example_babel no_config example_custom)
     = [JObject [(''targets'', JString ''ie 11''), (''modules'', JBool False),
                 (''loose'', JBool True), (''exclude'', forced_excludes)]]"
    by (simp add: example_custom_def)
  have "hasFilesystemConfig plain_config" "config_presets plain_config = Some [plain_preset]"
    and "\<forall>p\<in>set [plain_preset]. file_request p = ''@babel/preset-env''
            \<longrightarrow> (\<exists>props. item_options p = JObject props)"
    by (simp_all add: plain_config_def plain_preset_def)
  with fs obtain bo ps' where bo: "config example_babel plain_config example_custom = Inr bo"
    "presets bo = Some ps'" "length ps' = length [plain_preset]"
    and each: "\<forall>i<length [plain_preset]. \<forall>props.
                 file_request ([plain_preset] ! i) = ''@babel/preset-env'' \<longrightarrow>
                 item_options ([plain_preset] ! i) = JObject props \<longrightarrow>
                 file_resolved (ps' ! i) = file_resolved ([plain_preset] ! i)
                 \<and> get_key (item_options (ps' ! i)) ''modules'' = JBool False
                 \<and> ((\<forall>v. (''loose'', v) \<in> set props \<longrightarrow> v = JUndefined)
                      \<longrightarrow> get_key (item_options (ps' ! i)) ''loose'' = JBool True)
                 \<and> ((\<forall>v. (''exclude'', v) \<in> set props \<longrightarrow> \<not> js_truthy v)
                      \<longrightarrow> get_key (item_options (ps' ! i)) ''exclude'' = forced_excludes)"
    by blast
  from bo(3) obtain p' where ps': "ps' = [p']"
    by (cases ps') auto
  from each [rule_format, of 0 "[(''useBuiltIns'', JString ''usage'')]"]
  have "file_resolved p' = ''/w/node_modules/@babel/preset-env''
      \<and> get_key (item_options p') ''modules'' = JBool False
      \<and> get_key (item_options p') ''loose'' = JBool True
      \<and> get_key (item_options p') ''exclude'' = forced_excludes"
    by (simp add: ps' plain_preset_def)
  with first bo ps' show ?thesis by blast
qed

section \<open>Properties of the destination paths\<close>

lemma split_on_nonempty: "split_on c s \<noteq> []"
  by (induction s) (auto split: list.splits)

lemma split_on_plain: "c \<notin> set s \<Longrightarrow> split_on c s = [s]"
  by (induction s) (auto split: list.splits)

lemma split_on_snoc_sep: "split_on c (s @ [c]) = split_on c s @ [[]]"
  by (induction s) (auto split: list.splits simp: split_on_nonempty)

lemma split_on_append_plain:
  "c \<notin> set x \<Longrightarrow> split_on c (s @ x) = butlast (split_on c s) @ [last (split_on c s) @ x]"
proof (induction s)
  case Nil
  then show ?case by (simp add: split_on_plain)
next
  case (Cons a s)
  then have IH: "split_on c (s @ x) = butlast (split_on c s) @ [last (split_on c s) @ x]"
    by simp
  obtain seg segs where S: "split_on c s = seg # segs"
    using split_on_nonempty [of c s] by (cases "split_on c s") auto
  show ?case
  proof (cases "a = c")
    case True
    then show ?thesis by (simp add: IH split_on_nonempty)
  next
    case False
    then show ?thesis
      by (cases segs) (simp_all add: IH S)
  qed
qed


lemma normalize_with_suffix:
  assumes "CHR ''/'' \<notin> set x" and "x \<noteq> []" and "last x \<noteq> CHR ''.''"
  shows "normalize_segments (m @ x @ ''/'')
       = foldl push_segment [] (butlast (split_on CHR ''/'' m)) @ [last (split_on CHR ''/'' m) @ x]"
proof -
  let ?l = "last (split_on CHR ''/'' m) @ x"
  have "last ?l \<noteq> CHR ''.''" and "?l \<noteq> []"
    using assms by simp_all
  then have "?l \<noteq> ''.''" and "?l \<noteq> ''..''"
    by auto
  moreover have "split_on CHR ''/'' (m @ x @ ''/'')
       = butlast (split_on CHR ''/'' m) @ [?l, []]"
    using split_on_snoc_sep [of "CHR ''/''" "m @ x"] split_on_append_plain [OF assms(1), of m]
    by simp
  ultimately show ?thesis
    using \<open>?l \<noteq> []\<close> by (simp add: normalize_segments_def push_segment_def)
qed

lemma resolve_absolute:
  "starts_with b ''/'' \<Longrightarrow>
   resolve pcwd base b = join_absolute (normalize_segments (b @ ''/''))"
  by (auto simp: resolve_def path_resolve_def join_step_def starts_with_def)

lemma resolve_with_suffix:
  assumes "starts_with m ''/''"
  shows "\<exists>prefix. starts_with prefix ''/'' \<and>
           (\<forall>x base. CHR ''/'' \<notin> set x \<longrightarrow> x \<noteq> [] \<longrightarrow> last x \<noteq> CHR ''.'' \<longrightarrow>
              resolve pcwd base (m @ x) = prefix @ x)"
proof -
  let ?segs = "foldl push_segment [] (butlast (split_on CHR ''/'' m))"
  let ?prefix = "concat (map (\<lambda>s. CHR ''/'' # s) ?segs) @ CHR ''/'' # last (split_on CHR ''/'' m)"
  have "starts_with ?prefix ''/''"
    by (cases ?segs) (simp_all add: starts_with_def)
  moreover have "resolve pcwd base (m @ x) = ?prefix @ x"
    if "CHR ''/'' \<notin> set x" "x \<noteq> []" "last x \<noteq> CHR ''.''" for x base
  proof -
    from assms have "starts_with (m @ x) ''/''"
      by (cases m) (simp_all add: starts_with_def)
    then show ?thesis
      by (simp add: resolve_absolute normalize_with_suffix [OF that] join_absolute_def)
  qed
  ultimately show ?thesis by blast
qed

lemma join_absolute_starts: "starts_with (join_absolute segs) ''/''"
  by (cases segs) (simp_all add: join_absolute_def starts_with_def)

lemma resolve_starts: "starts_with (resolve pcwd a b) ''/''"
  by (simp add: resolve_def path_resolve_def join_absolute_starts)

lemma strip_suffix_absolute:
  assumes "starts_with s ''/''" and "ends_with s suf" and "starts_with suf ''.''"
  shows "starts_with (strip_suffix s suf) ''/''"
proof -
  from assms(1) obtain t where s: "s = CHR ''/'' # t"
    by (cases s) (auto simp: starts_with_def)
  from assms(3) obtain u where suf: "suf = CHR ''.'' # u"
    by (cases suf) (auto simp: starts_with_def)
  from assms(2) have "length suf \<le> length s" "drop (length s - length suf) s = suf"
    by (simp_all add: ends_with_def)
  then have "length suf < length s"
    using s suf by (cases "length suf = length s") auto
  then show ?thesis
    by (simp add: strip_suffix_def starts_with_def s Suc_diff_le take_Suc_Cons
        del: take_Suc_Cons) (cases "length t - length suf"; simp add: s)
qed


lemma strip_js_extension_absolute:
  assumes "starts_with s ''/''"
  shows "starts_with (strip_js_extension s) ''/''"
proof (cases "filter (ends_with s) format_suffixes")
  case Nil
  then show ?thesis
    using assms strip_suffix_absolute [of s "''.js''"]
    by (auto simp: strip_js_extension_def starts_with_def)
next
  case (Cons suf sufs)
  then have "suf \<in> set (filter (ends_with s) format_suffixes)" by simp
  then have "ends_with s suf" and "suf \<in> set format_suffixes"
    by simp_all
  then have "ends_with s suf" and "starts_with suf ''.''"
    by (auto simp: format_suffixes_def starts_with_def)
  with assms show ?thesis
    by (simp add: strip_js_extension_def Cons strip_suffix_absolute)
qed

lemma mainNoExtension_absolute:
  "starts_with (opt_output opts) ''/'' \<Longrightarrow> starts_with (mainNoExtension e opts entry) ''/''"
  by (simp add: mainNoExtension_def Let_def strip_js_extension_absolute resolve_starts)

lemma resolved_output_absolute:
  "starts_with (opt_output (resolved_options e ro p inp)) ''/''"
  by (simp add: resolved_options_def main_output_def Let_def resolve_starts)

lemma basename_plain: "CHR ''/'' \<notin> set (basename p)"
proof
  assume "CHR ''/'' \<in> set (basename p)"
  then have "CHR ''/'' \<in> set (takeWhile (\<lambda>c. \<not> is_slash c) (dropWhile is_slash (rev p)))"
    by (simp add: basename_def)
  then have "\<not> is_slash CHR ''/''"
    by (rule set_takeWhileD [THEN conjunct2])
  then show False by (simp add: is_slash_def)
qed

lemma template_suffix_plain: "CHR ''/'' \<notin> set (template_suffix p format)"
  using basename_plain [of "name_template p format"]
  by (auto simp: template_suffix_def strip_leading_name_def dest: set_dropWhileD)

lemma output_file_template:
  "output_file e opts entry format =
     resolve (process_cwd e) (cwd opts)
       (resolve (process_cwd e) (dirname (name_template (pkg opts) format))
          (mainNoExtension e opts entry @ template_suffix (pkg opts) format))"
  by (simp add: output_file_def moduleMain_def umdMain_def cjsMain_def replaceName_def
      name_template_def template_suffix_def)

lemma output_file_suffix:
  assumes "starts_with (opt_output opts) ''/''"
  shows "\<exists>prefix. \<forall>format.
           template_suffix (pkg opts) format \<noteq> [] \<longrightarrow>
           last (template_suffix (pkg opts) format) \<noteq> CHR ''.'' \<longrightarrow>
           output_file e opts entry format = prefix @ template_suffix (pkg opts) format"
proof -
  from resolve_with_suffix [where pcwd = "process_cwd e",
      OF mainNoExtension_absolute [OF assms, of e entry]]
  obtain p1 where p1: "starts_with p1 ''/''"
    and r1: "\<And>x base. CHR ''/'' \<notin> set x \<Longrightarrow> x \<noteq> [] \<Longrightarrow> last x \<noteq> CHR ''.'' \<Longrightarrow>
              resolve (process_cwd e) base (mainNoExtension e opts entry @ x) = p1 @ x"
    by blast
  from resolve_with_suffix [where pcwd = "process_cwd e", OF p1]
  obtain p2 where
    r2: "\<And>x base. CHR ''/'' \<notin> set x \<Longrightarrow> x \<noteq> [] \<Longrightarrow> last x \<noteq> CHR ''.'' \<Longrightarrow>
              resolve (process_cwd e) base (p1 @ x) = p2 @ x"
    by blast
  have "output_file e opts entry format = p2 @ template_suffix (pkg opts) format"
    if "template_suffix (pkg opts) format \<noteq> []"
      "last (template_suffix (pkg opts) format) \<noteq> CHR ''.''" for format
    using that by (simp add: output_file_template r1 r2 template_suffix_plain)
  then show ?thesis by blast
qed

lemma createConfig_out_file:
  "createConfig e opts entry format writeMeta = Inr c \<Longrightarrow>
   out_file c = output_file e opts entry format"
  by (auto elim!: createConfig_Inr)

lemma example_suffixes:
  "template_suffix (pkg example_options) ''es'' = ''.module.js''"
  "template_suffix (pkg example_options) ''cjs'' = ''.js''"
  "template_suffix (pkg example_options) ''iife'' = ''.js''"
  by (simp_all add: template_suffix_def name_template_def module_template_def string_or_def
      example_options_def example_pkg_def empty_pkg_def points_into_src_def starts_with_def
      basename_def is_slash_def strip_leading_name_def)

text \<open>
  \<^bold>\<open>C4\<close>, as stated, fails: a run with the entries \<^verbatim>\<open>src/index.js\<close> and \<^verbatim>\<open>lib/index.js\<close> and
  the formats \<^verbatim>\<open>cjs\<close> and \<^verbatim>\<open>iife\<close> has four pairs, and its four steps all have the destination
  \<^verbatim>\<open>/w/dist/acme.js\<close>; the run returns the steps and raises nothing.
\<close>

theorem destinations_collide:
  "run_destinations example_env (Manifest example_pkg) colliding_run
   = Inr [''/w/dist/acme.js'', ''/w/dist/acme.js'', ''/w/dist/acme.js'', ''/w/dist/acme.js'']"
  by code_simp

text \<open>
  \<^bold>\<open>C4\<close>, amended. For one entry and an absolute main output path (every run has one), the
  destination paths of two formats are equal exactly when the file-name templates that the
  formats select have the same suffix (the base name from its first dot on; the suffixes are
  non-empty and do not end in a dot). The program compares no destinations and raises no
  error for equal ones.
\<close>

theorem destination_by_suffix:
  assumes "starts_with (opt_output opts) ''/''"
    and "createConfig e opts entry format1 writeMeta1 = Inr c1"
    and "createConfig e opts entry format2 writeMeta2 = Inr c2"
    and "template_suffix (pkg opts) format1 \<noteq> []"
    and "last (template_suffix (pkg opts) format1) \<noteq> CHR ''.''"
    and "template_suffix (pkg opts) format2 \<noteq> []"
    and "last (template_suffix (pkg opts) format2) \<noteq> CHR ''.''"
  shows "(out_file c1 = out_file c2)
       = (template_suffix (pkg opts) format1 = template_suffix (pkg opts) format2)"
proof -
  from output_file_suffix [OF assms(1), of e entry] obtain prefix where
    "\<And>format. template_suffix (pkg opts) format \<noteq> [] \<Longrightarrow>
        last (template_suffix (pkg opts) format) \<noteq> CHR ''.'' \<Longrightarrow>
        output_file e opts entry format = prefix @ template_suffix (pkg opts) format"
    by blast
  with assms(4-7) have "output_file e opts entry format1 = prefix @ template_suffix (pkg opts) format1"
    and "output_file e opts entry format2 = prefix @ template_suffix (pkg opts) format2"
    by blast+
  then show ?thesis
    by (simp add: createConfig_out_file [OF assms(2)] createConfig_out_file [OF assms(3)])
qed

text \<open>The example entry: \<^verbatim>\<open>es\<close> and \<^verbatim>\<open>cjs\<close> get different destinations, \<^verbatim>\<open>cjs\<close> and \<^verbatim>\<open>iife\<close> the
  same one.\<close>

theorem destination_by_suffix_witness:
  "\<exists>c1 c2 c3.
      createConfig example_env example_options ''/w/src/index.js'' ''es'' False = Inr c1
    \<and> createConfig example_env example_options ''/w/src/index.js'' ''cjs'' True = Inr c2
    \<and> createConfig example_env example_options ''/w/src/index.js'' ''iife'' False = Inr c3
    \<and> out_file c1 \<noteq> out_file c2 \<and> out_file c2 = out_file c3"
proof -
  obtain c1 where c1:
    "createConfig example_env example_options ''/w/src/index.js'' ''es'' False = Inr c1"
    using example_createConfig by blast
  obtain c2 where c2:
    "createConfig example_env example_options ''/w/src/index.js'' ''cjs'' True = Inr c2"
    using example_createConfig by blast
  obtain c3 where c3:
    "createConfig example_env example_options ''/w/src/index.js'' ''iife'' False = Inr c3"
    using example_createConfig by blast
  have abs: "starts_with (opt_output example_options) ''/''"
    by (simp add: example_options_def starts_with_def)
  have "out_file c1 \<noteq> out_file c2"
    using destination_by_suffix [OF abs c1 c2] by (simp add: example_suffixes)
  moreover have "out_file c2 = out_file c3"
    using destination_by_suffix [OF abs c2 c3] by (simp add: example_suffixes)
  ultimately show ?thesis using c1 c2 c3 by blast
qed

end
